theory Spec2Isabelle
  imports Complex_Main
begin

section \<open>Data model (utils/types.ts)\<close>

text \<open>
  A JavaScript \<open>number\<close> that holds a percentage, a fraction or a credit count is
  modelled as an exact rational (\<open>rat\<close>): comparisons are the source's, while the
  rounding of IEEE doubles and the values NaN and Infinity are outside the model.
  Epoch milliseconds (\<open>Date.now()\<close>, \<open>Date.getTime()\<close>) are \<open>int\<close>.  An optional
  field \<open>f?: T\<close> is \<open>T option\<close>, with \<open>None\<close> for \<open>undefined\<close>.
\<close>

datatype GuardLevel = Normal | Warning | Critical | Blocked

record ModelQuotaInfo =
  label :: string
  modelId :: string
  remainingFraction :: "rat option"
  remainingPercentage :: "rat option"
  isExhausted :: bool
  resetTime :: int
  timeUntilReset :: int
  timeUntilResetFormatted :: string

record PromptCreditsInfo =
  pcAvailable :: rat
  pcMonthly :: rat
  pcUsedPercentage :: rat
  pcRemainingPercentage :: rat

record QuotaSnapshot =
  timestamp :: int
  promptCredits :: "PromptCreditsInfo option"
  models :: "ModelQuotaInfo list"

record GuardState =
  level :: GuardLevel
  modelsAtRisk :: "ModelQuotaInfo list"
  lowestQuota :: rat
  lowestQuotaModel :: "ModelQuotaInfo option"
  guardActive :: bool

record GuardCheckResult =
  shouldWarn :: bool
  shouldBlock :: bool
  checkLevel :: GuardLevel
  checkedModel :: ModelQuotaInfo
  message :: string

record GravityConfig =
  enabled :: bool
  warningThreshold :: rat
  blockThreshold :: rat
  pollingInterval :: rat
  guardEnabled :: bool
  soundEnabled :: bool
  pinnedModels :: "string list"

text \<open>The value type of the guard's \<open>acknowledgments\<close> map.\<close>

record Acknowledgment =
  ackLevel :: GuardLevel
  ackTimestamp :: int
  ackPercentage :: rat

text \<open>
  The fields of class \<open>QuotaGuard\<close>.  The two \<open>Map<string, _>\<close> fields are partial
  functions from model ids.
\<close>

record QuotaGuard =
  lastSnapshot :: "QuotaSnapshot option"
  config :: GravityConfig
  guardState :: GuardState
  acknowledgments :: "string \<rightharpoonup> Acknowledgment"
  lastSeenPercentages :: "string \<rightharpoonup> rat"
  lastBlockShown :: int

section \<open>Helpers for JavaScript operators and number formatting\<close>

text \<open>The nullish coalescing operator \<open>v ?? d\<close>.\<close>

definition nullish :: "'a option \<Rightarrow> 'a \<Rightarrow> 'a" where
  "nullish v d = (case v of None \<Rightarrow> d | Some x \<Rightarrow> x)"

text \<open>The decimal digits of an integer that is not negative, as \<open>String(n)\<close> prints them.\<close>

function showDigits :: "int \<Rightarrow> string" where
  "showDigits n =
     (if n < 10 then [''0123456789'' ! nat n]
      else showDigits (n div 10) @ [''0123456789'' ! nat (n mod 10)])"
  by pat_completeness auto
termination
  by (relation "measure nat") auto

declare showDigits.simps [simp del]

text \<open>
  \<open>x.toFixed(1)\<close>: the sign, then the integer \<open>n\<close> nearest to \<open>10 * |x|\<close> (the larger
  one on a tie), printed with one digit after the point.  The exponent notation that
  JavaScript switches to from \<open>1e21\<close> on is outside the model.
\<close>

definition toFixed1 :: "rat \<Rightarrow> string" where
  "toFixed1 x =
     (let n = \<lfloor>10 * \<bar>x\<bar> + 1 / 2\<rfloor>
      in (if x < 0 then ''-'' else []) @ showDigits (n div 10) @ ''.'' @ showDigits (n mod 10))"

section \<open>Quota Guard (guard/quota\_guard.ts)\<close>

text \<open>The constant \<open>blockCooldown\<close> and the id of the synthetic prompt-credits model.\<close>

definition blockCooldown :: int where
  "blockCooldown = 15000"

definition promptCreditsId :: string where
  "promptCreditsId = ''prompt_credits''"

text \<open>The constructor \<open>new QuotaGuard(config)\<close>.\<close>

definition newQuotaGuard :: "GravityConfig \<Rightarrow> QuotaGuard" where
  "newQuotaGuard cfg =
     \<lparr> lastSnapshot = None,
       config = cfg,
       guardState = \<lparr> level = Normal, modelsAtRisk = [], lowestQuota = 100,
                      lowestQuotaModel = None, guardActive = guardEnabled cfg \<rparr>,
       acknowledgments = Map.empty,
       lastSeenPercentages = Map.empty,
       lastBlockShown = 0 \<rparr>"

definition updateConfig :: "QuotaGuard \<Rightarrow> GravityConfig \<Rightarrow> QuotaGuard" where
  "updateConfig g cfg =
     g\<lparr> config := cfg, guardState := (guardState g)\<lparr> guardActive := guardEnabled cfg \<rparr> \<rparr>"

text \<open>
  The test of the reset branch in \<open>updateSnapshot\<close>:
  \<open>lastPct !== undefined && currentPct >= lastPct + 2.0\<close>.
\<close>

definition resetDetected :: "rat option \<Rightarrow> rat \<Rightarrow> bool" where
  "resetDetected lastPct currentPct =
     (case lastPct of None \<Rightarrow> False | Some l \<Rightarrow> currentPct \<ge> l + 2)"

text \<open>One iteration of the loop over \<open>snapshot.models\<close> in \<open>updateSnapshot\<close>.\<close>

definition resetStep :: "QuotaGuard \<Rightarrow> ModelQuotaInfo \<Rightarrow> QuotaGuard" where
  "resetStep g model =
     (let currentPct = nullish (remainingPercentage model) 100;
          lastPct = lastSeenPercentages g (modelId model);
          g1 = (if resetDetected lastPct currentPct
                then g\<lparr> acknowledgments :=
                        ((acknowledgments g)(modelId model := None))(promptCreditsId := None) \<rparr>
                else g)
      in g1\<lparr> lastSeenPercentages := (lastSeenPercentages g1)(modelId model \<mapsto> currentPct) \<rparr>)"

text \<open>The block \<open>if (snapshot.promptCredits) { ... }\<close> of \<open>updateSnapshot\<close>.\<close>

definition resetPromptCredits :: "QuotaGuard \<Rightarrow> PromptCreditsInfo option \<Rightarrow> QuotaGuard" where
  "resetPromptCredits g pc =
     (case pc of
        None \<Rightarrow> g
      | Some credits \<Rightarrow>
          (let currentPct = pcRemainingPercentage credits;
               lastPct = lastSeenPercentages g promptCreditsId;
               g1 = (if resetDetected lastPct currentPct
                     then g\<lparr> acknowledgments := (acknowledgments g)(promptCreditsId := None) \<rparr>
                     else g)
           in g1\<lparr> lastSeenPercentages :=
                    (lastSeenPercentages g1)(promptCreditsId \<mapsto> currentPct) \<rparr>))"

text \<open>
  The virtual model that \<open>analyzeQuotaState\<close> and \<open>getModelsRequiringAttention\<close> build
  for the prompt credits; \<open>now\<close> is the value of \<open>Date.now()\<close>.
\<close>

definition pcVirtualModel :: "rat \<Rightarrow> int \<Rightarrow> ModelQuotaInfo" where
  "pcVirtualModel pcPct now =
     \<lparr> label = ''Global Prompt Credits'',
       modelId = promptCreditsId,
       remainingFraction = None,
       remainingPercentage = Some pcPct,
       isExhausted = (pcPct \<le> 0),
       resetTime = now + 3600000,
       timeUntilReset = 3600000,
       timeUntilResetFormatted = ''this billing cycle'' \<rparr>"

text \<open>
  The loop of \<open>analyzeQuotaState\<close> over \<open>snapshot.models\<close>, threading the three local
  variables \<open>modelsAtRisk\<close>, \<open>lowestQuota\<close> and \<open>lowestQuotaModel\<close>.
\<close>

fun analyzeLoop ::
  "GravityConfig \<Rightarrow> ModelQuotaInfo list \<Rightarrow>
   ModelQuotaInfo list \<times> rat \<times> ModelQuotaInfo option \<Rightarrow>
   ModelQuotaInfo list \<times> rat \<times> ModelQuotaInfo option" where
  "analyzeLoop cfg [] acc = acc"
| "analyzeLoop cfg (model # rest) (atRisk, lowest, lowestModel) =
     (let pct = nullish (remainingPercentage model) 100;
          (lowest1, lowestModel1) =
             (if pct < lowest then (pct, Some model) else (lowest, lowestModel));
          atRisk1 = (if pct \<le> warningThreshold cfg then atRisk @ [model] else atRisk)
      in analyzeLoop cfg rest (atRisk1, lowest1, lowestModel1))"

text \<open>The level computed at the end of \<open>analyzeQuotaState\<close> from \<open>lowestQuota\<close>.\<close>

definition levelOf :: "GravityConfig \<Rightarrow> rat \<Rightarrow> GuardLevel" where
  "levelOf cfg lowest =
     (if lowest \<le> 0 then Blocked
      else if lowest \<le> blockThreshold cfg then Critical
      else if lowest \<le> warningThreshold cfg then Warning
      else Normal)"

definition analyzeQuotaState :: "GravityConfig \<Rightarrow> QuotaSnapshot \<Rightarrow> int \<Rightarrow> GuardState" where
  "analyzeQuotaState cfg snapshot now =
     (let (atRisk, lowest, lowestModel) = analyzeLoop cfg (models snapshot) ([], 100, None);
          (atRisk2, lowest2, lowestModel2) =
             (case promptCredits snapshot of
                None \<Rightarrow> (atRisk, lowest, lowestModel)
              | Some credits \<Rightarrow>
                  (let pcPct = pcRemainingPercentage credits;
                       virtual = pcVirtualModel pcPct now;
                       (lowest1, lowestModel1) =
                          (if pcPct < lowest then (pcPct, Some virtual) else (lowest, lowestModel));
                       atRisk1 =
                          (if pcPct \<le> warningThreshold cfg then atRisk @ [virtual] else atRisk)
                   in (atRisk1, lowest1, lowestModel1)))
      in \<lparr> level = levelOf cfg lowest2,
           modelsAtRisk = atRisk2,
           lowestQuota = lowest2,
           lowestQuotaModel = lowestModel2,
           guardActive = guardEnabled cfg \<rparr>)"

text \<open>
  \<open>updateSnapshot\<close>: the reset detection over the models and the prompt credits, then the
  snapshot is stored and the guard state recomputed.  The method returns the new
  \<open>guardState\<close>, which is a field of the result here.
\<close>

definition updateSnapshot :: "QuotaGuard \<Rightarrow> QuotaSnapshot \<Rightarrow> int \<Rightarrow> QuotaGuard" where
  "updateSnapshot g snapshot now =
     (let g1 = foldl resetStep g (models snapshot);
          g2 = resetPromptCredits g1 (promptCredits snapshot)
      in g2\<lparr> lastSnapshot := Some snapshot,
             guardState := analyzeQuotaState (config g2) snapshot now \<rparr>)"

definition getState :: "QuotaGuard \<Rightarrow> GuardState" where
  "getState g = guardState g"

definition isGuardActive :: "QuotaGuard \<Rightarrow> bool" where
  "isGuardActive g = guardActive (guardState g)"

text \<open>\<open>toggleGuard\<close> flips the flag of the stored state and returns the new value.\<close>

definition toggleGuard :: "QuotaGuard \<Rightarrow> bool \<times> QuotaGuard" where
  "toggleGuard g =
     (let g1 = g\<lparr> guardState := (guardState g)\<lparr> guardActive := \<not> guardActive (guardState g) \<rparr> \<rparr>
      in (guardActive (guardState g1), g1))"

text \<open>
  The characters that open the three messages of \<open>checkModel\<close>, as the source text
  holds them: U+00E2 U+203A U+201D for the first, U+00F0 U+0178 U+0161 U+00A8 for the
  second, U+00E2 U+0161 U+00A0 U+00EF U+00B8 for the third.  Some of them are above
  U+00FF, so each prefix is written as the bytes of its UTF-8 encoding.
\<close>

definition exhaustedPrefix :: string where
  "exhaustedPrefix = [CHR 0xC3, CHR 0xA2, CHR 0xE2, CHR 0x80, CHR 0xBA, CHR 0xE2, CHR 0x80, CHR 0x9D]"

definition criticalPrefix :: string where
  "criticalPrefix = [CHR 0xC3, CHR 0xB0, CHR 0xC5, CHR 0xB8, CHR 0xC5, CHR 0xA1, CHR 0xC2, CHR 0xA8]"

definition warningPrefix :: string where
  "warningPrefix =
     [CHR 0xC3, CHR 0xA2, CHR 0xC5, CHR 0xA1, CHR 0xC2, CHR 0xA0, CHR 0xC3, CHR 0xAF, CHR 0xC2,
      CHR 0xB8]"

definition checkModel :: "GravityConfig \<Rightarrow> ModelQuotaInfo \<Rightarrow> GuardCheckResult" where
  "checkModel cfg model =
     (let pct = nullish (remainingPercentage model) 100
      in if pct \<le> 0 then
           \<lparr> shouldWarn = False, shouldBlock = True, checkLevel = Blocked, checkedModel = model,
             message = exhaustedPrefix @ '' '' @ label model @ '' quota is EXHAUSTED!'' @ [CHR 0x0A]
                       @ ''Reset in: '' @ timeUntilResetFormatted model \<rparr>
         else if pct \<le> blockThreshold cfg then
           \<lparr> shouldWarn = False, shouldBlock = True, checkLevel = Critical, checkedModel = model,
             message = criticalPrefix @ '' CRITICAL: '' @ label model @ '' is at '' @ toFixed1 pct
                       @ ''%!'' @ [CHR 0x0A]
                       @ ''Continuing may trigger a cooldown penalty.'' @ [CHR 0x0A]
                       @ ''Reset in: '' @ timeUntilResetFormatted model \<rparr>
         else if pct \<le> warningThreshold cfg then
           \<lparr> shouldWarn = True, shouldBlock = False, checkLevel = Warning, checkedModel = model,
             message = warningPrefix @ '' Warning: '' @ label model @ '' is at '' @ toFixed1 pct
                       @ ''%'' @ [CHR 0x0A]
                       @ ''Reset in: '' @ timeUntilResetFormatted model \<rparr>
         else
           \<lparr> shouldWarn = False, shouldBlock = False, checkLevel = Normal, checkedModel = model,
             message = [] \<rparr>)"

definition getModelsRequiringAttention :: "QuotaGuard \<Rightarrow> int \<Rightarrow> ModelQuotaInfo list" where
  "getModelsRequiringAttention g now =
     (case lastSnapshot g of
        None \<Rightarrow> []
      | Some snapshot \<Rightarrow>
          (let atRisk =
                 filter (\<lambda>model. nullish (remainingPercentage model) 100
                                   \<le> warningThreshold (config g))
                   (models snapshot)
           in case promptCredits snapshot of
                None \<Rightarrow> atRisk
              | Some credits \<Rightarrow>
                  (let pcPct = pcRemainingPercentage credits
                   in if pcPct \<le> warningThreshold (config g)
                      then atRisk @ [pcVirtualModel pcPct now]
                      else atRisk)))"

text \<open>
  The callback of \<open>modelsAtRisk.reduce\<close> in \<open>checkAndWarn\<close>, and the reduction itself,
  which has no initial value and so starts from the first element.
\<close>

definition worseOf :: "ModelQuotaInfo \<Rightarrow> ModelQuotaInfo \<Rightarrow> ModelQuotaInfo" where
  "worseOf worst current =
     (let worstPct = nullish (remainingPercentage worst) 100;
          currentPct = nullish (remainingPercentage current) 100
      in if currentPct < worstPct then current else worst)"

fun worstModel :: "ModelQuotaInfo list \<Rightarrow> ModelQuotaInfo option" where
  "worstModel [] = None"
| "worstModel (first # rest) = Some (foldl worseOf first rest)"

text \<open>The table \<open>levelOrder\<close> of \<open>shouldShowAlert\<close>.\<close>

fun levelOrder :: "GuardLevel \<Rightarrow> nat" where
  "levelOrder Normal = 0"
| "levelOrder Warning = 1"
| "levelOrder Critical = 2"
| "levelOrder Blocked = 3"

text \<open>\<open>shouldShowAlert\<close>; \<open>now\<close> is the value of \<open>Date.now()\<close> read after the lookup.\<close>

definition shouldShowAlert :: "QuotaGuard \<Rightarrow> int \<Rightarrow> GuardCheckResult \<Rightarrow> bool" where
  "shouldShowAlert g now check =
     (case acknowledgments g (modelId (checkedModel check)) of
        None \<Rightarrow> True
      | Some ack \<Rightarrow>
          if levelOrder (checkLevel check) > levelOrder (ackLevel ack) then True
          else if checkLevel check = Critical \<or> checkLevel check = Blocked then False
          else
            (let beenLongEnough = (now - ackTimestamp ack > 600000);
                 droppedSignificantly =
                   (ackPercentage ack - nullish (remainingPercentage (checkedModel check)) 0 > 5)
             in beenLongEnough \<or> droppedSignificantly))"

text \<open>
  What the guard does to the editor: the calls of \<open>playAlertSound\<close> and of the
  \<open>vscode\<close> API, in the order they are made.
\<close>

datatype UiEvent =
    PlayAlertSound string
  | ShowWarningMessage string
  | ShowErrorMessage string
  | SetStatusBarMessage string
  | ExecuteCommand string

text \<open>
  What the outside world supplies to one \<open>checkAndWarn\<close>: the button the user picks
  (\<open>None\<close> when the message is dismissed) and the three readings of \<open>Date.now()\<close>.
\<close>

record Interaction =
  reply :: "string option"
  nowAtCheck :: int
  nowAtModal :: int
  nowAtAck :: int

definition recordAck :: "QuotaGuard \<Rightarrow> GuardCheckResult \<Rightarrow> int \<Rightarrow> QuotaGuard" where
  "recordAck g check now =
     g\<lparr> acknowledgments := (acknowledgments g)(modelId (checkedModel check) \<mapsto>
          \<lparr> ackLevel = checkLevel check,
            ackTimestamp = now,
            ackPercentage = nullish (remainingPercentage (checkedModel check)) 0 \<rparr>) \<rparr>"

definition showWarningModal ::
  "QuotaGuard \<Rightarrow> Interaction \<Rightarrow> GuardCheckResult \<Rightarrow> bool \<times> QuotaGuard \<times> UiEvent list" where
  "showWarningModal g io check =
     (let sound = (if soundEnabled (config g) then [PlayAlertSound ''warning''] else []);
          shown = sound @ [ShowWarningMessage (message check)]
      in if reply io = Some ''Show Details''
         then (False, g, shown @ [ExecuteCommand ''gravity.showStatus''])
         else (True, recordAck g check (nowAtAck io), shown))"

definition showBlockModal ::
  "QuotaGuard \<Rightarrow> Interaction \<Rightarrow> GuardCheckResult \<Rightarrow> bool \<times> QuotaGuard \<times> UiEvent list" where
  "showBlockModal g io check =
     (let now = nowAtModal io
      in if now - lastBlockShown g < blockCooldown then
           (False, g,
            [SetStatusBarMessage
               (''$(error) Gravity: '' @ label (checkedModel check) @ '' at ''
                @ (case remainingPercentage (checkedModel check) of
                     None \<Rightarrow> ''undefined'' | Some p \<Rightarrow> toFixed1 p)
                @ ''%'')])
         else
           (let g1 = g\<lparr> lastBlockShown := now \<rparr>;
                sound = (if soundEnabled (config g1) then [PlayAlertSound ''critical''] else []);
                g2 = recordAck g1 check (nowAtAck io)
            in (reply io = Some ''Proceed Anyway'', g2,
                sound @ [ShowErrorMessage (message check)])))"

text \<open>\<open>checkAndWarn\<close>, the decision gate: the answer, the guard afterwards, the UI calls.\<close>

definition checkAndWarn :: "QuotaGuard \<Rightarrow> Interaction \<Rightarrow> bool \<times> QuotaGuard \<times> UiEvent list" where
  "checkAndWarn g io =
     (if \<not> guardActive (guardState g) then (True, g, [])
      else
        (case worstModel (getModelsRequiringAttention g (nowAtCheck io)) of
           None \<Rightarrow> (True, g, [])
         | Some worst \<Rightarrow>
             (let check = checkModel (config g) worst
              in if \<not> shouldShowAlert g (nowAtCheck io) check then (True, g, [])
                 else if shouldBlock check then showBlockModal g io check
                 else if shouldWarn check then showWarningModal g io check
                 else (True, g, []))))"

text \<open>\<open>clearDismissedWarnings\<close>: warning acknowledgments older than an hour are dropped.\<close>

definition clearDismissedWarnings :: "QuotaGuard \<Rightarrow> int \<Rightarrow> QuotaGuard" where
  "clearDismissedWarnings g now =
     g\<lparr> acknowledgments :=
          (\<lambda>id. case acknowledgments g id of
                  None \<Rightarrow> None
                | Some ack \<Rightarrow>
                    if ackLevel ack = Warning \<and> now - ackTimestamp ack > 3600000
                    then None else Some ack) \<rparr>"

section \<open>Strings and regular expressions of the platform strategies\<close>

text \<open>
  A JavaScript string is modelled as a \<open>string\<close> of code units below 256.  The character
  classes are those of the source's regular expressions; the ones matched under the
  flag \<open>i\<close> hold both cases.
\<close>

definition isSpace :: "char \<Rightarrow> bool" where
  "isSpace c =
     (c \<in> set [CHR 0x09, CHR 0x0A, CHR 0x0B, CHR 0x0C, CHR 0x0D, CHR 0x20, CHR 0xA0])"

definition isDigit :: "char \<Rightarrow> bool" where
  "isDigit c = (c \<in> set ''0123456789'')"

text \<open>The class \<open>[a-f0-9]\<close> under the flag \<open>i\<close>, and \<open>[a-f0-9-]\<close> under it.\<close>

definition isHex :: "char \<Rightarrow> bool" where
  "isHex c = (c \<in> set ''0123456789abcdefABCDEF'')"

definition isHexDash :: "char \<Rightarrow> bool" where
  "isHexDash c = (isHex c \<or> c = CHR ''-'')"

text \<open>The class \<open>[=\s]\<close>.\<close>

definition isEqOrSpace :: "char \<Rightarrow> bool" where
  "isEqOrSpace c = (c = CHR ''='' \<or> isSpace c)"

definition lowerChar :: "char \<Rightarrow> char" where
  "lowerChar c =
     (case map_of (zip ''ABCDEFGHIJKLMNOPQRSTUVWXYZ'' ''abcdefghijklmnopqrstuvwxyz'') c of
        None \<Rightarrow> c | Some l \<Rightarrow> l)"

text \<open>
  A literal of a pattern at the start of the input: the rest of the input after it.
  With \<open>ignoreCase\<close> the comparison is the one of the flag \<open>i\<close>.
\<close>

fun matchLiteral :: "bool \<Rightarrow> string \<Rightarrow> string \<Rightarrow> string option" where
  "matchLiteral ignoreCase [] s = Some s"
| "matchLiteral ignoreCase (p # ps) [] = None"
| "matchLiteral ignoreCase (p # ps) (c # cs) =
     (if (if ignoreCase then lowerChar p = lowerChar c else p = c)
      then matchLiteral ignoreCase ps cs else None)"

text \<open>\<open>X+\<close> for a character class \<open>X\<close>, greedy: the run matched and the rest.\<close>

definition matchPlus :: "(char \<Rightarrow> bool) \<Rightarrow> string \<Rightarrow> (string \<times> string) option" where
  "matchPlus cls s =
     (if takeWhile cls s = [] then None else Some (takeWhile cls s, dropWhile cls s))"

text \<open>\<open>X{n}\<close> for a character class \<open>X\<close>.\<close>

definition matchExactly :: "(char \<Rightarrow> bool) \<Rightarrow> nat \<Rightarrow> string \<Rightarrow> (string \<times> string) option" where
  "matchExactly cls n s =
     (if n \<le> length s \<and> list_all cls (take n s) then Some (take n s, drop n s) else None)"

text \<open>
  \<open>String.prototype.match\<close> of a pattern without the flag \<open>g\<close>: the match at the
  leftmost position of the input that has one.
\<close>

fun firstMatch :: "(string \<Rightarrow> 'a option) \<Rightarrow> string \<Rightarrow> 'a option" where
  "firstMatch matchAt [] = matchAt []"
| "firstMatch matchAt (c # cs) =
     (case matchAt (c # cs) of Some r \<Rightarrow> Some r | None \<Rightarrow> firstMatch matchAt cs)"

text \<open>
  The patterns \<open>/--flag[=\s]+(\d+)/\<close> and \<open>/--flag[=\s]+([a-f0-9-]+)/i\<close> at one position:
  the flag, a run of \<open>[=\s]\<close>, a run of the value's class, which is the capture group.
  The two classes share no character, so the greedy runs are the only way to match.
\<close>

definition flagValueAt ::
  "bool \<Rightarrow> string \<Rightarrow> (char \<Rightarrow> bool) \<Rightarrow> string \<Rightarrow> string option" where
  "flagValueAt ignoreCase flag cls s =
     (case matchLiteral ignoreCase flag s of
        None \<Rightarrow> None
      | Some s1 \<Rightarrow>
          (case matchPlus isEqOrSpace s1 of
             None \<Rightarrow> None
           | Some (sep, s2) \<Rightarrow>
               (case matchPlus cls s2 of None \<Rightarrow> None | Some (val, rest) \<Rightarrow> Some val)))"

text \<open>\<open>/--extension_server_port[=\s]+(\d+)/\<close> and \<open>/--grpc_server_port[=\s]+(\d+)/\<close>.\<close>

definition matchExtensionServerPort :: "string \<Rightarrow> string option" where
  "matchExtensionServerPort cmd =
     firstMatch (flagValueAt False ''--extension_server_port'' isDigit) cmd"

definition matchGrpcServerPort :: "string \<Rightarrow> string option" where
  "matchGrpcServerPort cmd = firstMatch (flagValueAt False ''--grpc_server_port'' isDigit) cmd"

text \<open>\<open>/--csrf_token[=\s]+([a-f0-9-]+)/i\<close>.\<close>

definition matchCsrfToken :: "string \<Rightarrow> string option" where
  "matchCsrfToken cmd = firstMatch (flagValueAt True ''--csrf_token'' isHexDash) cmd"

text \<open>
  \<open>/--api_server_url=https?:\/\/[^/]+\/([a-f0-9-]+)/i\<close> at one position.  The run
  \<open>[^/]+\<close> can only end before a slash, and \<open>s?\<close> can only be skipped before a colon,
  so the greedy choices are the only way to match.
\<close>

definition apiServerUrlAt :: "string \<Rightarrow> string option" where
  "apiServerUrlAt s =
     (case matchLiteral True ''--api_server_url=http'' s of
        None \<Rightarrow> None
      | Some s1 \<Rightarrow>
          (let s2 = (case s1 of c # cs \<Rightarrow> if lowerChar c = CHR ''s'' then cs else s1 | [] \<Rightarrow> s1)
           in case matchLiteral True ''://'' s2 of
                None \<Rightarrow> None
              | Some s3 \<Rightarrow>
                  (case matchPlus (\<lambda>c. c \<noteq> CHR ''/'') s3 of
                     None \<Rightarrow> None
                   | Some (host, s4) \<Rightarrow>
                       (case matchLiteral True ''/'' s4 of
                          None \<Rightarrow> None
                        | Some s5 \<Rightarrow>
                            (case matchPlus isHexDash s5 of
                               None \<Rightarrow> None
                             | Some (val, rest) \<Rightarrow> Some val)))))"

definition matchApiServerUrl :: "string \<Rightarrow> string option" where
  "matchApiServerUrl cmd = firstMatch apiServerUrlAt cmd"

text \<open>
  \<open>/([a-f0-9]{8}-[a-f0-9]{4}-[a-f0-9]{4}-[a-f0-9]{4}-[a-f0-9]{12})/i\<close> at one position:
  the groups of hexadecimal digits of the given lengths, with a dash between two groups.
\<close>

fun hexGroupsAt :: "nat list \<Rightarrow> string \<Rightarrow> string option" where
  "hexGroupsAt [] s = Some []"
| "hexGroupsAt [n] s = (case matchExactly isHex n s of None \<Rightarrow> None | Some (grp, rest) \<Rightarrow> Some grp)"
| "hexGroupsAt (n # m # ns) s =
     (case matchExactly isHex n s of
        None \<Rightarrow> None
      | Some (grp, rest) \<Rightarrow>
          (case matchLiteral False ''-'' rest of
             None \<Rightarrow> None
           | Some rest1 \<Rightarrow>
               (case hexGroupsAt (m # ns) rest1 of
                  None \<Rightarrow> None
                | Some others \<Rightarrow> Some (grp @ ''-'' @ others))))"

definition matchUuid :: "string \<Rightarrow> string option" where
  "matchUuid cmd = firstMatch (hexGroupsAt [8, 4, 4, 4, 12]) cmd"

text \<open>
  \<open>parseInt(s, 10)\<close>: leading white space, an optional sign, then the longest run of
  digits; \<open>None\<close> is NaN, the result when there is no digit.
\<close>

definition digitsToInt :: "string \<Rightarrow> int" where
  "digitsToInt ds = foldl (\<lambda>n d. 10 * n + (of_char d - 48)) 0 ds"

definition parseInt :: "string \<Rightarrow> int option" where
  "parseInt s =
     (let s1 = dropWhile isSpace s;
          (negative, s2) =
             (case s1 of
                c # cs \<Rightarrow> if c = CHR ''-'' then (True, cs)
                          else if c = CHR ''+'' then (False, cs) else (False, s1)
              | [] \<Rightarrow> (False, s1));
          ds = takeWhile isDigit s2
      in if ds = [] then None
         else Some (if negative then - digitsToInt ds else digitsToInt ds))"

text \<open>\<open>String(n)\<close> for a number that holds an integer or NaN.\<close>

definition showInt :: "int option \<Rightarrow> string" where
  "showInt n =
     (case n of
        None \<Rightarrow> ''NaN''
      | Some i \<Rightarrow> (if i < 0 then ''-'' else []) @ showDigits \<bar>i\<bar>)"

text \<open>\<open>s.trim()\<close>, \<open>s.startsWith(p)\<close>, \<open>s.split('\n')\<close> and \<open>s.split(/\s+/)\<close>.\<close>

definition trim :: "string \<Rightarrow> string" where
  "trim s = rev (dropWhile isSpace (rev (dropWhile isSpace s)))"

definition startsWith :: "string \<Rightarrow> string \<Rightarrow> bool" where
  "startsWith s p = (take (length p) s = p)"

fun splitNewline :: "string \<Rightarrow> string list" where
  "splitNewline [] = [[]]"
| "splitNewline (c # cs) =
     (if c = CHR 0x0A then [] # splitNewline cs
      else (case splitNewline cs of w # ws \<Rightarrow> (c # w) # ws | [] \<Rightarrow> [[c]]))"

function splitWhitespace :: "string \<Rightarrow> string list" where
  "splitWhitespace [] = [[]]"
| "splitWhitespace (c # cs) =
     (if isSpace c then [] # splitWhitespace (dropWhile isSpace cs)
      else (case splitWhitespace cs of w # ws \<Rightarrow> (c # w) # ws | [] \<Rightarrow> [[c]]))"
  by pat_completeness auto
termination
  by (relation "measure length") (auto simp: length_dropWhile_le less_Suc_eq_le)

text \<open>\<open>xs.join(' ')\<close>.\<close>

fun joinSpace :: "string list \<Rightarrow> string" where
  "joinSpace [] = []"
| "joinSpace [w] = w"
| "joinSpace (w # v # ws) = w @ '' '' @ joinSpace (v # ws)"

text \<open>\<open>stdout.split('\n').filter((l) => l.trim())\<close>: the lines that are not blank.\<close>

definition nonBlankLines :: "string \<Rightarrow> string list" where
  "nonBlankLines stdout = filter (\<lambda>l. trim l \<noteq> []) (splitNewline stdout)"

section \<open>Platform strategies (core/platform\_strategies.ts)\<close>

text \<open>
  \<open>ParsedProcessInfo\<close> and \<open>ProcessInfo\<close>.  A pid or a port read by \<open>parseInt\<close> is an
  \<open>int option\<close>, \<open>None\<close> being NaN.
\<close>

record ParsedProcessInfo =
  pid :: "int option"
  extensionPort :: "int option"
  csrfToken :: string

record ProcessInfo =
  foundExtensionPort :: "int option"
  connectPort :: int
  foundCsrfToken :: string

text \<open>The interface \<open>PlatformStrategy\<close>: an object with four methods.\<close>

record PlatformStrategy =
  getProcessListCommand :: "string \<Rightarrow> string"
  parseProcessInfo :: "string \<Rightarrow> ParsedProcessInfo option"
  getPortListCommand :: "int option \<Rightarrow> string"
  parseListeningPorts :: "string \<Rightarrow> int option \<Rightarrow> int list"

text \<open>
  The two port patterns joined by \<open>||\<close>, which evaluates its right operand only when
  the left one is \<open>null\<close>; both strategies use the same expression.
\<close>

definition portMatch :: "string \<Rightarrow> string option" where
  "portMatch cmd =
     (case matchExtensionServerPort cmd of
        Some m \<Rightarrow> Some m
      | None \<Rightarrow> matchGrpcServerPort cmd)"

subsection \<open>WindowsStrategy\<close>

definition windowsProcessListCommand :: "string \<Rightarrow> string" where
  "windowsProcessListCommand processName =
     ''wmic process where '' @ [CHR 0x22] @ ''name='' @ [CHR 0x27] @ processName @ [CHR 0x27]
     @ [CHR 0x22] @ '' get ProcessId,CommandLine /format:list''"

text \<open>The token of \<open>WindowsStrategy.extractFromCommandLine\<close>: three patterns in order.\<close>

definition windowsTokenMatch :: "string \<Rightarrow> string option" where
  "windowsTokenMatch cmd =
     (case matchCsrfToken cmd of
        Some m \<Rightarrow> Some m
      | None \<Rightarrow>
          (case matchApiServerUrl cmd of
             Some m \<Rightarrow> Some m
           | None \<Rightarrow> matchUuid cmd))"

definition extractFromCommandLine :: "string \<Rightarrow> int option \<Rightarrow> ParsedProcessInfo option" where
  "extractFromCommandLine cmd processId =
     (case portMatch cmd of
        None \<Rightarrow> None
      | Some portDigits \<Rightarrow>
          (let port = parseInt portDigits;
               token = (case windowsTokenMatch cmd of Some t \<Rightarrow> t | None \<Rightarrow> [])
           in if token = [] then None
              else Some \<lparr> pid = processId, extensionPort = port, csrfToken = token \<rparr>))"

text \<open>
  The loop of \<open>WindowsStrategy.parseProcessInfo\<close> over the lines, threading the local
  variables \<open>commandLine\<close> and \<open>pid\<close> (which starts at 0).
\<close>

fun windowsScanLines :: "string list \<Rightarrow> string \<times> int option \<Rightarrow> string \<times> int option" where
  "windowsScanLines [] acc = acc"
| "windowsScanLines (line # rest) (commandLine, processId) =
     (if startsWith line ''CommandLine=''
      then windowsScanLines rest (trim (drop (length ''CommandLine='') line), processId)
      else if startsWith line ''ProcessId=''
      then windowsScanLines rest
             (commandLine, parseInt (trim (drop (length ''ProcessId='') line)))
      else windowsScanLines rest (commandLine, processId))"

text \<open>\<open>!commandLine || !pid\<close>: the empty string, and the numbers 0 and NaN, are falsy.\<close>

definition windowsParseProcessInfo :: "string \<Rightarrow> ParsedProcessInfo option" where
  "windowsParseProcessInfo stdout =
     (let (commandLine, processId) = windowsScanLines (nonBlankLines stdout) ([], Some 0)
      in if commandLine = [] \<or> processId = None \<or> processId = Some 0 then None
         else extractFromCommandLine commandLine processId)"

definition windowsPortListCommand :: "int option \<Rightarrow> string" where
  "windowsPortListCommand processId =
     ''netstat -ano | findstr '' @ showInt processId @ '' | findstr LISTENING''"

subsection \<open>UnixStrategy\<close>

datatype UnixPlatform = Darwin | Linux

definition unixProcessListCommand :: "string \<Rightarrow> string" where
  "unixProcessListCommand processName =
     ''ps aux | grep -i '' @ [CHR 0x22] @ processName @ [CHR 0x22] @ '' | grep -v grep''"

text \<open>The token of \<open>UnixStrategy.parseProcessLine\<close>: two patterns in order.\<close>

definition unixTokenMatch :: "string \<Rightarrow> string option" where
  "unixTokenMatch commandLine =
     (case matchCsrfToken commandLine of
        Some m \<Rightarrow> Some m
      | None \<Rightarrow> matchUuid commandLine)"

definition parseProcessLine :: "string \<Rightarrow> ParsedProcessInfo option" where
  "parseProcessLine line =
     (let parts = splitWhitespace (trim line)
      in if length parts < 11 then None
         else
           (let processId = parseInt (parts ! 1);
                commandLine = joinSpace (drop 10 parts)
            in case portMatch commandLine of
                 None \<Rightarrow> None
               | Some portDigits \<Rightarrow>
                   (let port = parseInt portDigits;
                        token = (case unixTokenMatch commandLine of Some t \<Rightarrow> t | None \<Rightarrow> [])
                    in if token = [] then None
                       else Some \<lparr> pid = processId, extensionPort = port, csrfToken = token \<rparr>)))"

text \<open>The loop of \<open>UnixStrategy.parseProcessInfo\<close>: the first line that parses.\<close>

fun unixScanLines :: "string list \<Rightarrow> ParsedProcessInfo option" where
  "unixScanLines [] = None"
| "unixScanLines (line # rest) =
     (case parseProcessLine line of Some result \<Rightarrow> Some result | None \<Rightarrow> unixScanLines rest)"

definition unixParseProcessInfo :: "string \<Rightarrow> ParsedProcessInfo option" where
  "unixParseProcessInfo stdout = unixScanLines (nonBlankLines stdout)"

definition unixPortListCommand :: "UnixPlatform \<Rightarrow> int option \<Rightarrow> string" where
  "unixPortListCommand platform processId =
     (if platform = Darwin
      then ''lsof -i -P -n | grep '' @ showInt processId @ '' | grep LISTEN''
      else ''ss -tlnp 2>/dev/null | grep '' @ [CHR 0x22] @ ''pid='' @ showInt processId
           @ [CHR 0x22] @ '' || netstat -tlnp 2>/dev/null | grep '' @ showInt processId)"

subsection \<open>WindowsStrategy.parseListeningPorts and the strategy object\<close>

text \<open>
  \<open>LISTENING\s+(\d+)\<close> under the flag \<open>i\<close> at one position: the digits captured.
\<close>

definition listeningPidAt :: "string \<Rightarrow> string option" where
  "listeningPidAt s =
     (case matchLiteral True ''LISTENING'' s of
        None \<Rightarrow> None
      | Some s1 \<Rightarrow>
          (case matchPlus isSpace s1 of
             None \<Rightarrow> None
           | Some (sep, s2) \<Rightarrow>
               (case matchPlus isDigit s2 of None \<Rightarrow> None | Some (digits, rest) \<Rightarrow> Some digits)))"

text \<open>
  \<open>.*X\<close> for a pattern \<open>X\<close>: the greedy \<open>.*\<close> gives characters back one at a time, so
  the match of \<open>X\<close> that is found starts at the last position that has one, among the
  positions that \<open>.*\<close> can reach.  It cannot pass a line terminator.
\<close>

definition isLineTerminator :: "char \<Rightarrow> bool" where
  "isLineTerminator c = (c = CHR 0x0A \<or> c = CHR 0x0D)"

fun lastMatch :: "(string \<Rightarrow> 'a option) \<Rightarrow> string \<Rightarrow> 'a option" where
  "lastMatch matchAt [] = matchAt []"
| "lastMatch matchAt (c # cs) =
     (case (if isLineTerminator c then None else lastMatch matchAt cs) of
        Some r \<Rightarrow> Some r
      | None \<Rightarrow> matchAt (c # cs))"

text \<open>
  \<open>/:(\d+)\s+.*LISTENING\s+(\d+)/i\<close> at one position: both capture groups.  The run
  \<open>\d+\<close> must be followed by white space, so it is matched whole; white space that
  \<open>\s+\<close> gives back has to be passed by \<open>.*\<close> instead, which opens no other match.
\<close>

definition windowsListeningAt :: "string \<Rightarrow> (string \<times> string) option" where
  "windowsListeningAt s =
     (case matchLiteral True '':'' s of
        None \<Rightarrow> None
      | Some s1 \<Rightarrow>
          (case matchPlus isDigit s1 of
             None \<Rightarrow> None
           | Some (portDigits, s2) \<Rightarrow>
               (case matchPlus isSpace s2 of
                  None \<Rightarrow> None
                | Some (sep, s3) \<Rightarrow>
                    (case lastMatch listeningPidAt s3 of
                       None \<Rightarrow> None
                     | Some pidDigits \<Rightarrow> Some (portDigits, pidDigits)))))"

text \<open>The loop of \<open>WindowsStrategy.parseListeningPorts\<close> over the lines.\<close>

fun windowsPortsOfLines :: "string list \<Rightarrow> int option \<Rightarrow> int list" where
  "windowsPortsOfLines [] processId = []"
| "windowsPortsOfLines (line # rest) processId =
     (case firstMatch windowsListeningAt line of
        None \<Rightarrow> windowsPortsOfLines rest processId
      | Some (portDigits, pidDigits) \<Rightarrow>
          (case (parseInt pidDigits, processId, parseInt portDigits) of
             (Some owner, Some wanted, Some found) \<Rightarrow>
               if owner = wanted then found # windowsPortsOfLines rest processId
               else windowsPortsOfLines rest processId
           | _ \<Rightarrow> windowsPortsOfLines rest processId))"

text \<open>\<open>[...new Set(ports)]\<close>: the first occurrence of every port, in order.\<close>

fun dedupe :: "int list \<Rightarrow> int list" where
  "dedupe [] = []"
| "dedupe (x # xs) = x # dedupe (filter (\<lambda>y. y \<noteq> x) xs)"

definition windowsParseListeningPorts :: "string \<Rightarrow> int option \<Rightarrow> int list" where
  "windowsParseListeningPorts stdout processId =
     dedupe (windowsPortsOfLines (nonBlankLines stdout) processId)"

definition windowsStrategy :: PlatformStrategy where
  "windowsStrategy =
     \<lparr> getProcessListCommand = windowsProcessListCommand,
       parseProcessInfo = windowsParseProcessInfo,
       getPortListCommand = windowsPortListCommand,
       parseListeningPorts = windowsParseListeningPorts \<rparr>"

section \<open>Process finder (core/process\_finder.ts)\<close>

text \<open>
  The outside world of \<open>ProcessFinder\<close>.  A shell command run by \<open>execAsync\<close> either
  rejects or yields its \<open>stdout\<close> and \<open>stderr\<close>; an HTTPS probe ends with a response
  (status code and body), with an \<open>error\<close> event or with a \<open>timeout\<close> event.  Both
  may answer differently at each attempt, so the world is indexed by the attempt.
  \<open>jsonParses body\<close> says whether \<open>JSON.parse(body)\<close> returns.
\<close>

datatype ExecOutcome = ExecRejected | ExecResolved string string

datatype ProbeOutcome = Responded nat string | RequestError | RequestTimeout

record World =
  execAsync :: "nat \<Rightarrow> string \<Rightarrow> ExecOutcome"
  httpsRequest :: "nat \<Rightarrow> int \<Rightarrow> string \<Rightarrow> ProbeOutcome"
  jsonParses :: "string \<Rightarrow> bool"

text \<open>What \<open>detectProcessInfo\<close> does to the world, in order, one constructor per call site.\<close>

datatype Effect =
    RunProcessList string
  | RunPortList string
  | ProbePort int
  | Wait nat

text \<open>\<open>testPort\<close>: the value the promise resolves with, from how the probe ended.\<close>

definition testPort :: "World \<Rightarrow> nat \<Rightarrow> int \<Rightarrow> string \<Rightarrow> bool" where
  "testPort world attempt port token =
     (case httpsRequest world attempt port token of
        Responded statusCode body \<Rightarrow> if statusCode = 200 then jsonParses world body else False
      | RequestError \<Rightarrow> False
      | RequestTimeout \<Rightarrow> False)"

text \<open>\<open>findWorkingPort\<close>: the port returned (if any) and the ports probed, in order.\<close>

fun findWorkingPort ::
  "World \<Rightarrow> nat \<Rightarrow> int list \<Rightarrow> string \<Rightarrow> int option \<times> Effect list" where
  "findWorkingPort world attempt [] token = (None, [])"
| "findWorkingPort world attempt (port # rest) token =
     (if testPort world attempt port token then (Some port, [ProbePort port])
      else (let (found, probed) = findWorkingPort world attempt rest token
            in (found, ProbePort port # probed)))"

text \<open>\<open>getListeningPorts\<close>: a rejected command is caught and gives no port.\<close>

definition getListeningPorts ::
  "PlatformStrategy \<Rightarrow> World \<Rightarrow> nat \<Rightarrow> int option \<Rightarrow> int list \<times> Effect list" where
  "getListeningPorts strategy world attempt processId =
     (let cmd = getPortListCommand strategy processId
      in case execAsync world attempt cmd of
           ExecRejected \<Rightarrow> ([], [RunPortList cmd])
         | ExecResolved stdout stderr \<Rightarrow>
             (parseListeningPorts strategy stdout processId, [RunPortList cmd]))"

text \<open>
  The body of the \<open>for\<close> loop of \<open>detectProcessInfo\<close> up to the retry delay: the
  \<open>try\<close> block, whose \<open>catch\<close> turns a rejected command into a failed attempt.
  \<open>if (validPort)\<close> is a truthiness test, which the port 0 fails.
\<close>

definition attemptDetection ::
  "PlatformStrategy \<Rightarrow> string \<Rightarrow> World \<Rightarrow> nat \<Rightarrow> ProcessInfo option \<times> Effect list" where
  "attemptDetection strategy processName world attempt =
     (let cmd = getProcessListCommand strategy processName
      in case execAsync world attempt cmd of
           ExecRejected \<Rightarrow> (None, [RunProcessList cmd])
         | ExecResolved stdout stderr \<Rightarrow>
             (case parseProcessInfo strategy stdout of
                None \<Rightarrow> (None, [RunProcessList cmd])
              | Some info \<Rightarrow>
                  (let (ports, listed) = getListeningPorts strategy world attempt (pid info)
                   in if length ports > 0 then
                        (let (validPort, probed) =
                               findWorkingPort world attempt ports (csrfToken info)
                         in case validPort of
                              None \<Rightarrow> (None, RunProcessList cmd # listed @ probed)
                            | Some port \<Rightarrow>
                                if port \<noteq> 0 then
                                  (Some \<lparr> foundExtensionPort = extensionPort info,
                                           connectPort = port,
                                           foundCsrfToken = csrfToken info \<rparr>,
                                   RunProcessList cmd # listed @ probed)
                                else (None, RunProcessList cmd # listed @ probed))
                      else (None, RunProcessList cmd # listed))))"

text \<open>
  The \<open>for\<close> loop of \<open>detectProcessInfo\<close>, from the value of \<open>attempt\<close> on.  The
  number of retries is a natural number; the loop's test makes \<open>maxRetries - 1\<close> the
  source's subtraction wherever it is evaluated.
\<close>

function detectLoop ::
  "PlatformStrategy \<Rightarrow> string \<Rightarrow> World \<Rightarrow> nat \<Rightarrow> nat \<Rightarrow> ProcessInfo option \<times> Effect list" where
  "detectLoop strategy processName world maxRetries attempt =
     (if attempt < maxRetries then
        (case attemptDetection strategy processName world attempt of
           (Some info, effects) \<Rightarrow> (Some info, effects)
         | (None, effects) \<Rightarrow>
             (let delay = (if attempt < maxRetries - 1 then [Wait 500] else []);
                  (result, later) = detectLoop strategy processName world maxRetries (attempt + 1)
              in (result, effects @ delay @ later)))
      else (None, []))"
  by pat_completeness auto
termination
  by (relation "measure (\<lambda>(strategy, processName, world, maxRetries, attempt).
        maxRetries - attempt)") auto

declare detectLoop.simps [simp del]

definition detectProcessInfo ::
  "PlatformStrategy \<Rightarrow> string \<Rightarrow> World \<Rightarrow> nat \<Rightarrow> ProcessInfo option \<times> Effect list" where
  "detectProcessInfo strategy processName world maxRetries =
     detectLoop strategy processName world maxRetries 0"

section \<open>Quota manager (core/quota\_manager.ts)\<close>

text \<open>
  The part of \<open>ServerUserStatusResponse\<close> that \<open>parseResponse\<close> reads.  A field that
  the code tests before use is an \<open>option\<close>; \<open>userStatus\<close> is one too, since reading a
  field of a missing \<open>userStatus\<close> throws a TypeError.  The credit counts are the values
  of \<open>Number(...)\<close>.
\<close>

record QuotaInfo =
  quotaRemainingFraction :: "rat option"
  quotaResetTime :: string

record ServerModelConfig =
  configLabel :: string
  modelOrAlias :: "string option"
  quotaInfo :: "QuotaInfo option"

record PlanStatus =
  monthlyPromptCredits :: "rat option"
  availablePromptCredits :: "rat option"

record UserStatus =
  planStatus :: "PlanStatus option"
  clientModelConfigs :: "ServerModelConfig list option"

record ServerUserStatusResponse =
  userStatus :: "UserStatus option"

text \<open>
  The \<open>Date\<close> operations the manager calls, which belong to the runtime:
  \<open>new Date(s).getTime()\<close> and the two locale formats of \<open>formatTime\<close>.  A reset time
  that does not parse (an invalid date) is outside the model.
\<close>

record DateApi =
  dateParse :: "string \<Rightarrow> int"
  toLocaleDateString :: "int \<Rightarrow> string"
  toLocaleTimeString :: "int \<Rightarrow> string"

text \<open>\<open>formatTime\<close>; \<open>Math.ceil(ms / 60000)\<close> is the ceiling of the exact quotient.\<close>

definition formatTime :: "DateApi \<Rightarrow> int \<Rightarrow> int \<Rightarrow> string" where
  "formatTime api ms reset =
     (if ms \<le> 0 then ''Ready''
      else
        (let mins = \<lceil>rat_of_int ms / 60000\<rceil>;
             duration =
               (if mins < 60 then showDigits mins @ ''m''
                else
                  (let hours = mins div 60;
                       remainingMins = mins mod 60
                   in if remainingMins > 0
                      then showDigits hours @ ''h '' @ showDigits remainingMins @ ''m''
                      else showDigits hours @ ''h''))
         in duration @ '' ('' @ toLocaleDateString api reset @ '' ''
            @ toLocaleTimeString api reset @ '')''))"

text \<open>
  The prompt credits of \<open>parseResponse\<close>.  \<open>planInfo\<close> is modelled by its one field
  that is read, so \<open>planInfo && availableCredits !== undefined\<close> is the test that both
  fields of the plan status are there.
\<close>

definition parsePromptCredits :: "PlanStatus option \<Rightarrow> PromptCreditsInfo option" where
  "parsePromptCredits plan =
     (case plan of
        None \<Rightarrow> None
      | Some status \<Rightarrow>
          (case (monthlyPromptCredits status, availablePromptCredits status) of
             (Some monthly, Some available) \<Rightarrow>
               if monthly > 0
               then Some \<lparr> pcAvailable = available,
                           pcMonthly = monthly,
                           pcUsedPercentage = ((monthly - available) / monthly) * 100,
                           pcRemainingPercentage = (available / monthly) * 100 \<rparr>
               else None
           | _ \<Rightarrow> None))"

text \<open>
  The callback of \<open>.map\<close> in \<open>parseResponse\<close>, for a model that passed the filter
  \<open>m.quotaInfo\<close>; \<open>now\<close> is the clock reading \<open>new Date()\<close> of this call, and
  \<open>x || 'unknown'\<close> replaces a missing or empty model name.
\<close>

definition parseModel :: "DateApi \<Rightarrow> int \<Rightarrow> ServerModelConfig \<Rightarrow> QuotaInfo \<Rightarrow> ModelQuotaInfo" where
  "parseModel api now m info =
     (let reset = dateParse api (quotaResetTime info);
          diff = reset - now;
          fraction = quotaRemainingFraction info
      in \<lparr> label = configLabel m,
           modelId = (case modelOrAlias m of
                        None \<Rightarrow> ''unknown''
                      | Some name \<Rightarrow> if name = [] then ''unknown'' else name),
           remainingFraction = fraction,
           remainingPercentage = (case fraction of None \<Rightarrow> None | Some f \<Rightarrow> Some (f * 100)),
           isExhausted = (fraction = Some 0),
           resetTime = reset,
           timeUntilReset = diff,
           timeUntilResetFormatted = formatTime api diff reset \<rparr>)"

text \<open>
  \<open>.filter((m) => m.quotaInfo).map(...)\<close>: the clock is read once for every model that
  is kept, so the models are mapped with a counter of the clock readings made so far.
\<close>

fun parseModels ::
  "DateApi \<Rightarrow> (nat \<Rightarrow> int) \<Rightarrow> nat \<Rightarrow> ServerModelConfig list \<Rightarrow> ModelQuotaInfo list" where
  "parseModels api clock k [] = []"
| "parseModels api clock k (m # rest) =
     (case quotaInfo m of
        None \<Rightarrow> parseModels api clock k rest
      | Some info \<Rightarrow> parseModel api (clock k) m info # parseModels api clock (k + 1) rest)"

text \<open>
  \<open>parseResponse\<close>: \<open>clock k\<close> is the \<open>k\<close>-th reading of \<open>new Date()\<close>, the last one
  being the snapshot's timestamp.  \<open>Inl\<close> is the TypeError of a missing \<open>userStatus\<close>.
\<close>

definition parseResponse ::
  "DateApi \<Rightarrow> (nat \<Rightarrow> int) \<Rightarrow> ServerUserStatusResponse \<Rightarrow> string + QuotaSnapshot" where
  "parseResponse api clock data =
     (case userStatus data of
        None \<Rightarrow> Inl ''TypeError''
      | Some status \<Rightarrow>
          (let credits = parsePromptCredits (planStatus status);
               rawModels = (case clientModelConfigs status of None \<Rightarrow> [] | Some ms \<Rightarrow> ms);
               parsed = parseModels api clock 0 rawModels
           in Inr \<lparr> timestamp = clock (length parsed),
                     promptCredits = credits,
                     models = parsed \<rparr>))"

text \<open>
  How the promise of \<open>request\<close> settles: the \<open>error\<close> event rejects with the network
  error, the \<open>timeout\<close> event with \<open>Request timeout\<close>, and the end of the response
  resolves with \<open>JSON.parse(body)\<close> or rejects with \<open>Invalid JSON response\<close>.
  \<open>jsonParse\<close> is the parser, \<open>None\<close> when it throws.
\<close>

datatype RequestOutcome = NetworkError string | RequestTimedOut | ResponseEnded string

definition request ::
  "(string \<Rightarrow> ServerUserStatusResponse option) \<Rightarrow> RequestOutcome \<Rightarrow>
   string + ServerUserStatusResponse" where
  "request jsonParse outcome =
     (case outcome of
        NetworkError msg \<Rightarrow> Inl msg
      | RequestTimedOut \<Rightarrow> Inl ''Request timeout''
      | ResponseEnded body \<Rightarrow>
          (case jsonParse body of
             None \<Rightarrow> Inl ''Invalid JSON response''
           | Some data \<Rightarrow> Inr data))"

text \<open>
  The fields of \<open>QuotaManager\<close> that \<open>fetchQuota\<close> reads or writes; a callback is
  modelled by whether one is registered, and its call by an entry of the trace.  The
  registered callbacks are taken to return normally.
\<close>

record QuotaManager =
  managerPort :: int
  managerCsrfToken :: string
  updateCallback :: bool
  errorCallback :: bool
  managerLastSnapshot :: "QuotaSnapshot option"

datatype CallbackCall = UpdateCalled QuotaSnapshot | ErrorCalled string

text \<open>
  \<open>fetchQuota\<close>: the value the promise resolves with, the manager afterwards and the
  callbacks called.  The \<open>catch\<close> block handles a rejected request and a throwing
  \<open>parseResponse\<close> alike.
\<close>

definition fetchQuota ::
  "DateApi \<Rightarrow> (nat \<Rightarrow> int) \<Rightarrow> (string \<Rightarrow> ServerUserStatusResponse option) \<Rightarrow>
   QuotaManager \<Rightarrow> RequestOutcome \<Rightarrow> QuotaSnapshot option \<times> QuotaManager \<times> CallbackCall list" where
  "fetchQuota api clock jsonParse manager outcome =
     (case (case request jsonParse outcome of
              Inl err \<Rightarrow> Inl err
            | Inr data \<Rightarrow> parseResponse api clock data) of
        Inr snapshot \<Rightarrow>
          (Some snapshot,
           manager\<lparr> managerLastSnapshot := Some snapshot \<rparr>,
           (if updateCallback manager then [UpdateCalled snapshot] else []))
      | Inl err \<Rightarrow>
          (None, manager, (if errorCallback manager then [ErrorCalled err] else [])))"

section \<open>Notions used in the statements\<close>

subsection \<open>The classification of the specification\<close>

text \<open>
  The four rules of the specification for a percentage \<open>p\<close> against the two thresholds,
  as a relation between \<open>p\<close> and a level: at most 0 is blocked, above 0 up to the block
  threshold is critical, above the block threshold up to the warning threshold is
  warning, anything else is normal.
\<close>

definition classifiedAs :: "rat \<Rightarrow> rat \<Rightarrow> rat \<Rightarrow> GuardLevel \<Rightarrow> bool" where
  "classifiedAs bt wt p l =
     ((p \<le> 0 \<longrightarrow> l = Blocked)
      \<and> (0 < p \<and> p \<le> bt \<longrightarrow> l = Critical)
      \<and> (bt < p \<and> p \<le> wt \<longrightarrow> l = Warning)
      \<and> (\<not> p \<le> 0 \<and> \<not> (0 < p \<and> p \<le> bt) \<and> \<not> (bt < p \<and> p \<le> wt) \<longrightarrow> l = Normal))"

text \<open>The percentages that \<open>analyzeQuotaState\<close> compares: one per model, an absent one
  as the code reads it, then the prompt credits' when there are any.\<close>

definition percentagesOf :: "QuotaSnapshot \<Rightarrow> rat list" where
  "percentagesOf snapshot =
     map (\<lambda>model. nullish (remainingPercentage model) 100) (models snapshot)
     @ (case promptCredits snapshot of
          None \<Rightarrow> []
        | Some credits \<Rightarrow> [pcRemainingPercentage credits])"

subsection \<open>The order of severity\<close>

text \<open>
  The levels from the least to the most severe are normal, warning, critical, blocked.
  \<open>moreSevere a b\<close> says that \<open>a\<close> is strictly more severe than \<open>b\<close>; it is written out
  level by level and does not use the table of \<open>shouldShowAlert\<close>.
\<close>

fun moreSevere :: "GuardLevel \<Rightarrow> GuardLevel \<Rightarrow> bool" where
  "moreSevere Normal b = False"
| "moreSevere Warning b = (b = Normal)"
| "moreSevere Critical b = (b = Normal \<or> b = Warning)"
| "moreSevere Blocked b = (b = Normal \<or> b = Warning \<or> b = Critical)"

subsection \<open>Counting the effects of a detection\<close>

text \<open>The runs of the process-list command in a trace, and the delays in it.\<close>

fun isRunProcessList :: "Effect \<Rightarrow> bool" where
  "isRunProcessList (RunProcessList cmd) = True"
| "isRunProcessList (RunPortList cmd) = False"
| "isRunProcessList (ProbePort p) = False"
| "isRunProcessList (Wait ms) = False"

definition processListRuns :: "Effect list \<Rightarrow> nat" where
  "processListRuns effects = length (filter isRunProcessList effects)"

fun waits :: "Effect list \<Rightarrow> nat list" where
  "waits [] = []"
| "waits (Wait ms # rest) = ms # waits rest"
| "waits (e # rest) = waits rest"

section \<open>Concrete inputs\<close>

subsection \<open>Configurations, models, snapshots and guards\<close>

text \<open>The defaults of \<open>ConfigManager.getConfig\<close>, and a configuration with a negative
  block threshold.\<close>

definition defaultConfig :: GravityConfig where
  "defaultConfig =
     \<lparr> enabled = True, warningThreshold = 20, blockThreshold = 2, pollingInterval = 120 * 1000,
       guardEnabled = True, soundEnabled = True, pinnedModels = [] \<rparr>"

definition negativeBlockConfig :: GravityConfig where
  "negativeBlockConfig = defaultConfig\<lparr> blockThreshold := -1, warningThreshold := 10 \<rparr>"

text \<open>A model with the given id and percentage that resets in two hours, and a snapshot
  without prompt credits.\<close>

definition sampleModel :: "string \<Rightarrow> rat option \<Rightarrow> ModelQuotaInfo" where
  "sampleModel mid pct =
     \<lparr> label = mid, modelId = mid, remainingFraction = map_option (\<lambda>p. p / 100) pct,
       remainingPercentage = pct, isExhausted = (pct = Some 0), resetTime = 7200000,
       timeUntilReset = 7200000, timeUntilResetFormatted = ''2h'' \<rparr>"

definition sampleSnapshot :: "ModelQuotaInfo list \<Rightarrow> QuotaSnapshot" where
  "sampleSnapshot ms = \<lparr> timestamp = 0, promptCredits = None, models = ms \<rparr>"

text \<open>A guard with the default configuration that holds one acknowledgment, for model
  \<open>a\<close>.\<close>

definition ackGuard :: "GuardLevel \<Rightarrow> rat \<Rightarrow> int \<Rightarrow> QuotaGuard" where
  "ackGuard l pct time =
     (newQuotaGuard defaultConfig)
       \<lparr> acknowledgments :=
           [''a'' \<mapsto> \<lparr> ackLevel = l, ackTimestamp = time, ackPercentage = pct \<rparr>] \<rparr>"

text \<open>A guard that has seen models \<open>a\<close> and \<open>b\<close> at 10 and holds an acknowledgment
  for each of them and for the prompt credits.\<close>

definition seenGuard :: QuotaGuard where
  "seenGuard =
     (newQuotaGuard defaultConfig)
       \<lparr> acknowledgments :=
           [''a'' \<mapsto> \<lparr> ackLevel = Warning, ackTimestamp = 0, ackPercentage = 10 \<rparr>,
            ''b'' \<mapsto> \<lparr> ackLevel = Warning, ackTimestamp = 0, ackPercentage = 10 \<rparr>,
            promptCreditsId \<mapsto> \<lparr> ackLevel = Warning, ackTimestamp = 0, ackPercentage = 10 \<rparr>],
         lastSeenPercentages := [''a'' \<mapsto> 10, ''b'' \<mapsto> 10] \<rparr>"

subsection \<open>A world for the detection\<close>

text \<open>
  The output of the process-list command for a process 7 whose command line names the
  port 9 and the token \<open>ab-1\<close>, and of the port-list command with two listening ports of
  that process and one of another.
\<close>

definition wmicOutput :: string where
  "wmicOutput =
     ''CommandLine=ls --grpc_server_port=9 --csrf_token ab-1'' @ [CHR 0x0D, CHR 0x0A]
     @ ''ProcessId=7'' @ [CHR 0x0D, CHR 0x0A]"

definition netstatOutput :: string where
  "netstatOutput =
     ''  TCP  127.0.0.1:81  0.0.0.0:0  LISTENING  7'' @ [CHR 0x0D, CHR 0x0A]
     @ ''  TCP  127.0.0.1:80  0.0.0.0:0  LISTENING  77'' @ [CHR 0x0D, CHR 0x0A]
     @ ''  TCP  [::1]:82  [::]:0  LISTENING  7'' @ [CHR 0x0D, CHR 0x0A]"

text \<open>
  A world in which the process-list command is rejected at attempt 0 and both commands
  resolve afterwards; at attempt 1 port 81 times out and port 82 answers 200 with a body
  that is not JSON; at attempt 2 port 81 refuses the connection and every other port
  answers 200 with the body \<open>{}\<close>.
\<close>

definition retryWorld :: World where
  "retryWorld =
     \<lparr> execAsync =
         (\<lambda>attempt cmd.
            if attempt = 0 then ExecRejected
            else if cmd = windowsProcessListCommand ''ls.exe'' then ExecResolved wmicOutput []
            else if cmd = windowsPortListCommand (Some 7) then ExecResolved netstatOutput []
            else ExecRejected),
       httpsRequest =
         (\<lambda>attempt p token.
            if attempt = 2 then (if p = 81 then RequestError else Responded 200 ''{}'')
            else if p = 81 then RequestTimeout
            else if p = 82 then Responded 200 ''<html>''
            else Responded 404 ''{}''),
       jsonParses = (\<lambda>body. body = ''{}'') \<rparr>"

subsection \<open>A status response\<close>

text \<open>
  A runtime whose dates parse to 7200000 for \<open>later\<close> and to 0 otherwise, and a clock
  that reads 100, 101, 102, ...
\<close>

definition sampleApi :: DateApi where
  "sampleApi =
     \<lparr> dateParse = (\<lambda>s. if s = ''later'' then 7200000 else 0),
       toLocaleDateString = (\<lambda>t. ''01/01''),
       toLocaleTimeString = (\<lambda>t. ''02:00'') \<rparr>"

definition sampleClock :: "nat \<Rightarrow> int" where
  "sampleClock k = 100 + int k"

text \<open>
  A response with 125 of 500 prompt credits left and four models: one at the fraction
  1/2, one without fraction, one without quota information, and one at the fraction 0
  whose reset time has passed.
\<close>

definition sampleResponse :: ServerUserStatusResponse where
  "sampleResponse =
     \<lparr> userStatus = Some
         \<lparr> planStatus = Some \<lparr> monthlyPromptCredits = Some 500,
                                availablePromptCredits = Some 125 \<rparr>,
           clientModelConfigs = Some
             [\<lparr> configLabel = ''A'', modelOrAlias = Some ''a'',
                 quotaInfo = Some \<lparr> quotaRemainingFraction = Some (1/2),
                                    quotaResetTime = ''later'' \<rparr> \<rparr>,
              \<lparr> configLabel = ''B'', modelOrAlias = None,
                 quotaInfo = Some \<lparr> quotaRemainingFraction = None,
                                    quotaResetTime = ''later'' \<rparr> \<rparr>,
              \<lparr> configLabel = ''C'', modelOrAlias = Some ''c'', quotaInfo = None \<rparr>,
              \<lparr> configLabel = ''D'', modelOrAlias = Some ''d'',
                 quotaInfo = Some \<lparr> quotaRemainingFraction = Some 0,
                                    quotaResetTime = ''past'' \<rparr> \<rparr>] \<rparr> \<rparr>"

text \<open>A parser that accepts the one body \<open>ok\<close> and yields the sample response.\<close>

definition sampleJsonParse :: "string \<Rightarrow> ServerUserStatusResponse option" where
  "sampleJsonParse body = (if body = ''ok'' then Some sampleResponse else None)"

text \<open>The snapshot that \<open>parseResponse\<close> makes of the sample response.\<close>

definition sampleParsed :: QuotaSnapshot where
  "sampleParsed =
     \<lparr> timestamp = 103,
       promptCredits = Some \<lparr> pcAvailable = 125, pcMonthly = 500, pcUsedPercentage = 75,
                              pcRemainingPercentage = 25 \<rparr>,
       models =
         [\<lparr> label = ''A'', modelId = ''a'', remainingFraction = Some (1 / 2),
             remainingPercentage = Some 50, isExhausted = False, resetTime = 7200000,
             timeUntilReset = 7199900, timeUntilResetFormatted = ''2h (01/01 02:00)'' \<rparr>,
          \<lparr> label = ''B'', modelId = ''unknown'', remainingFraction = None,
             remainingPercentage = None, isExhausted = False, resetTime = 7200000,
             timeUntilReset = 7199899, timeUntilResetFormatted = ''2h (01/01 02:00)'' \<rparr>,
          \<lparr> label = ''D'', modelId = ''d'', remainingFraction = Some 0,
             remainingPercentage = Some 0, isExhausted = True, resetTime = 0,
             timeUntilReset = - 102, timeUntilResetFormatted = ''Ready'' \<rparr>] \<rparr>"

text \<open>A manager that holds a snapshot and has both callbacks registered.\<close>

definition sampleManager :: QuotaManager where
  "sampleManager =
     \<lparr> managerPort = 82, managerCsrfToken = ''ab-1'', updateCallback = True,
       errorCallback = True,
       managerLastSnapshot = Some (sampleSnapshot [sampleModel ''a'' (Some 50)]) \<rparr>"

subsection \<open>A guard that warns at every percentage\<close>

text \<open>
  A configuration whose warning threshold is 100; and the guard with that configuration
  that holds a warning acknowledgment at 50 for model \<open>a\<close>, made at time 0, after it has
  received the snapshot whose only model is \<open>a\<close> with the given percentage.
\<close>

definition cautiousConfig :: GravityConfig where
  "cautiousConfig = defaultConfig\<lparr> warningThreshold := 100 \<rparr>"

definition cautiousGuard :: "rat option \<Rightarrow> QuotaGuard" where
  "cautiousGuard pct =
     updateSnapshot
       ((newQuotaGuard cautiousConfig)
          \<lparr> acknowledgments :=
              [''a'' \<mapsto> \<lparr> ackLevel = Warning, ackTimestamp = 0, ackPercentage = 50 \<rparr>] \<rparr>)
       (sampleSnapshot [sampleModel ''a'' pct]) 0"

subsection \<open>A user who dismisses every message\<close>

definition dismissal :: Interaction where
  "dismissal = \<lparr> reply = None, nowAtCheck = 0, nowAtModal = 0, nowAtAck = 0 \<rparr>"

subsection \<open>A command line with two identifiers\<close>

text \<open>
  A command line without \<open>csrf_token\<close> flag, in which a UUID stands before the
  \<open>api_server_url\<close> flag and another is the path segment after it; and the output of
  the process-list command that shows it, on Windows and on Unix.
\<close>

definition twoUuidCommandLine :: string where
  "twoUuidCommandLine =
     ''ls --grpc_server_port=9 --id=11111111-2222-3333-4444-555555555555''
     @ '' --api_server_url=http://h/aaaaaaaa-bbbb-cccc-dddd-eeeeeeeeeeee''"

definition twoUuidWmicOutput :: string where
  "twoUuidWmicOutput =
     ''CommandLine='' @ twoUuidCommandLine @ [CHR 0x0D, CHR 0x0A]
     @ ''ProcessId=7'' @ [CHR 0x0D, CHR 0x0A]"

definition twoUuidPsOutput :: string where
  "twoUuidPsOutput =
     ''root 7 0.0 0.1 10 20 ? Ssl 10:00 0:01 '' @ twoUuidCommandLine @ [CHR 0x0A]"

section \<open>Classification of the lowest percentage\<close>

lemma levelOf_classifiedAs:
  "0 \<le> blockThreshold cfg \<Longrightarrow> blockThreshold cfg \<le> warningThreshold cfg \<Longrightarrow>
   classifiedAs (blockThreshold cfg) (warningThreshold cfg) p (levelOf cfg p)"
  by (auto simp: classifiedAs_def levelOf_def)

lemma analyzeLoop_lowest:
  "fst (snd (analyzeLoop cfg ms (r, lo, lm)))
     = foldl min lo (map (\<lambda>model. nullish (remainingPercentage model) 100) ms)"
proof (induction ms arbitrary: r lo lm)
  case Nil
  show ?case by simp
next
  case (Cons m ms)
  show ?case
    by (simp add: Let_def Cons.IH min_def)
qed

lemma foldl_min_Min: "foldl min (lo::rat) xs = Min (insert lo (set xs))"
proof (induction xs arbitrary: lo)
  case Nil
  show ?case by simp
next
  case (Cons x xs)
  have "Min (insert (min lo x) (set xs)) = Min (insert lo (insert x (set xs)))"
    by (metis List.finite_set Min_singleton finite.insertI min.assoc Min.insert insert_not_empty)
  then show ?case by (simp add: Cons.IH)
qed

lemma analyze_level:
  "level (analyzeQuotaState cfg s now) = levelOf cfg (lowestQuota (analyzeQuotaState cfg s now))"
  by (simp add: analyzeQuotaState_def Let_def split: prod.splits option.splits)

lemma analyze_lowest:
  "lowestQuota (analyzeQuotaState cfg s now) = foldl min 100 (percentagesOf s)"
proof -
  obtain r lo lm where a: "analyzeLoop cfg (models s) ([], 100, None) = (r, lo, lm)"
    by (cases "analyzeLoop cfg (models s) ([], 100, None)") auto
  have lo: "lo = foldl min 100 (map (\<lambda>model. nullish (remainingPercentage model) 100) (models s))"
    using analyzeLoop_lowest [of cfg "models s" "[]" 100 None] a by simp
  show ?thesis
    by (simp add: analyzeQuotaState_def a lo percentagesOf_def Let_def min_def
        split: option.splits)
qed

lemma checkModel_level:
  "checkLevel (checkModel cfg m) = levelOf cfg (nullish (remainingPercentage m) 100)"
  by (simp add: checkModel_def levelOf_def Let_def)

text \<open>
  C1, as the code has it.  With \<open>0 \<le> blockThreshold \<le> warningThreshold\<close>, the level
  that \<open>analyzeQuotaState\<close> stores is the specification's classification of the
  \<open>lowestQuota\<close> it stores, which is the least of 100 and the percentages of the
  snapshot (an absent one read as 100); and the level of \<open>checkModel\<close> is the same
  classification of the model's percentage.  Both bounds are inclusive.
\<close>

theorem guard_classification:
  assumes "0 \<le> blockThreshold cfg" and "blockThreshold cfg \<le> warningThreshold cfg"
  shows "classifiedAs (blockThreshold cfg) (warningThreshold cfg)
           (lowestQuota (analyzeQuotaState cfg snapshot now))
           (level (analyzeQuotaState cfg snapshot now))
         \<and> lowestQuota (analyzeQuotaState cfg snapshot now)
             = Min (insert 100 (set (percentagesOf snapshot)))
         \<and> classifiedAs (blockThreshold cfg) (warningThreshold cfg)
             (nullish (remainingPercentage model) 100)
             (checkLevel (checkModel cfg model))"
  using assms
  by (simp add: analyze_level analyze_lowest foldl_min_Min checkModel_level levelOf_classifiedAs)

text \<open>
  The theorem at the default thresholds 2 and 20: a snapshot whose lowest model stands
  at 1.5 is critical, and a model at exactly 20 is at warning level.
\<close>

theorem guard_classification_witness:
  "level (analyzeQuotaState defaultConfig
            (sampleSnapshot [sampleModel ''a'' (Some 50), sampleModel ''b'' (Some (3/2))]) 0)
     = Critical
   \<and> lowestQuota (analyzeQuotaState defaultConfig
            (sampleSnapshot [sampleModel ''a'' (Some 50), sampleModel ''b'' (Some (3/2))]) 0)
     = 3/2
   \<and> checkLevel (checkModel defaultConfig (sampleModel ''a'' (Some 20))) = Warning"
  using guard_classification [of defaultConfig
      "sampleSnapshot [sampleModel ''a'' (Some 50), sampleModel ''b'' (Some (3/2))]" 0
      "sampleModel ''a'' (Some 20)"]
  by (simp add: classifiedAs_def defaultConfig_def sampleSnapshot_def sampleModel_def
      percentagesOf_def nullish_def)

text \<open>
  C1 as stated asks only for \<open>blockThreshold \<le> warningThreshold\<close>.  With the block
  threshold -1 and the warning threshold 10, a model at 0 makes the guard blocked,
  while the rule for the warning range (-1 < 0 \<le> 10) asks for warning: the four rules
  do not hold of the code's level.
\<close>

theorem guard_classification_counterexample:
  "blockThreshold negativeBlockConfig \<le> warningThreshold negativeBlockConfig
   \<and> lowestQuota (analyzeQuotaState negativeBlockConfig
        (sampleSnapshot [sampleModel ''a'' (Some 0)]) 0) = 0
   \<and> level (analyzeQuotaState negativeBlockConfig
        (sampleSnapshot [sampleModel ''a'' (Some 0)]) 0) = Blocked
   \<and> \<not> classifiedAs (blockThreshold negativeBlockConfig) (warningThreshold negativeBlockConfig)
        (lowestQuota (analyzeQuotaState negativeBlockConfig
           (sampleSnapshot [sampleModel ''a'' (Some 0)]) 0))
        (level (analyzeQuotaState negativeBlockConfig
           (sampleSnapshot [sampleModel ''a'' (Some 0)]) 0))"
  by (simp add: classifiedAs_def negativeBlockConfig_def defaultConfig_def sampleSnapshot_def
      sampleModel_def analyzeQuotaState_def levelOf_def nullish_def)

section \<open>Alert suppression\<close>

text \<open>
  The table \<open>levelOrder\<close> of \<open>shouldShowAlert\<close> ranks the levels in the order normal,
  warning, critical, blocked, so the first test of the method is the test for a check
  that is strictly more severe than the acknowledgment.
\<close>

lemma levelOrder_moreSevere: "levelOrder b < levelOrder a \<longleftrightarrow> moreSevere a b"
  by (cases a; cases b) simp_all

lemma shouldShowAlert_moreSevere:
  "shouldShowAlert g now check =
     (case acknowledgments g (modelId (checkedModel check)) of
        None \<Rightarrow> True
      | Some ack \<Rightarrow>
          if moreSevere (checkLevel check) (ackLevel ack) then True
          else if checkLevel check = Critical \<or> checkLevel check = Blocked then False
          else now - ackTimestamp ack > 600000
               \<or> ackPercentage ack - nullish (remainingPercentage (checkedModel check)) 0 > 5)"
  by (simp only: shouldShowAlert_def levelOrder_moreSevere Let_def)

text \<open>
  C4.  \<open>shouldShowAlert\<close> shows when the model has no acknowledgment.  With one, it
  shows when the check's level is strictly more severe than the acknowledged level, in
  the order normal, warning, critical, blocked; failing that it suppresses a critical or
  blocked check, whatever the time; and failing that it shows a warning check exactly
  when more than 600000 ms have passed since the acknowledgment or the percentage (an
  absent one read as 0 here) is more than 5 below the acknowledged percentage.  The
  housekeeping of \<open>clearDismissedWarnings\<close> keeps every acknowledgment that is not at
  warning level, at any time.
\<close>

theorem shouldShowAlert_rules:
  "(acknowledgments g (modelId (checkedModel check)) = None \<longrightarrow> shouldShowAlert g now check)
   \<and> (\<forall>ack. acknowledgments g (modelId (checkedModel check)) = Some ack \<longrightarrow>
         (moreSevere (checkLevel check) (ackLevel ack) \<longrightarrow> shouldShowAlert g now check)
       \<and> (\<not> moreSevere (checkLevel check) (ackLevel ack)
            \<and> (checkLevel check = Critical \<or> checkLevel check = Blocked)
            \<longrightarrow> \<not> shouldShowAlert g now check)
       \<and> (\<not> moreSevere (checkLevel check) (ackLevel ack) \<and> checkLevel check = Warning
            \<longrightarrow> shouldShowAlert g now check
                 = (now - ackTimestamp ack > 600000
                    \<or> ackPercentage ack
                       - nullish (remainingPercentage (checkedModel check)) 0 > 5)))
   \<and> (\<forall>i ack. acknowledgments g i = Some ack \<and> ackLevel ack \<noteq> Warning \<longrightarrow>
         acknowledgments (clearDismissedWarnings g now) i = Some ack)"
  by (auto simp: shouldShowAlert_moreSevere clearDismissedWarnings_def)

text \<open>
  The rules at work.  A critical acknowledgment at 1.5 suppresses a critical check a
  long time later and lets a blocked check through; a warning acknowledgment lets a
  critical check through, and a blocked acknowledgment suppresses a critical check; a
  warning acknowledgment at 15 made at time 0 suppresses a warning check at 15 at time
  600000 and shows it at 600001, suppresses a check at 10 and shows one at 9.9; a model
  without acknowledgment shows.
\<close>

theorem shouldShowAlert_rules_witness:
  "\<not> shouldShowAlert (ackGuard Critical (3/2) 1000) 999999999
        (checkModel defaultConfig (sampleModel ''a'' (Some (3/2))))
   \<and> shouldShowAlert (ackGuard Critical (3/2) 1000) 2000
        (checkModel defaultConfig (sampleModel ''a'' (Some 0)))
   \<and> shouldShowAlert (ackGuard Warning 15 0) 1
        (checkModel defaultConfig (sampleModel ''a'' (Some 2)))
   \<and> \<not> shouldShowAlert (ackGuard Blocked 0 0) 999999999
        (checkModel defaultConfig (sampleModel ''a'' (Some 1)))
   \<and> \<not> shouldShowAlert (ackGuard Warning 15 0) 600000
        (checkModel defaultConfig (sampleModel ''a'' (Some 15)))
   \<and> shouldShowAlert (ackGuard Warning 15 0) 600001
        (checkModel defaultConfig (sampleModel ''a'' (Some 15)))
   \<and> \<not> shouldShowAlert (ackGuard Warning 15 0) 1
        (checkModel defaultConfig (sampleModel ''a'' (Some 10)))
   \<and> shouldShowAlert (ackGuard Warning 15 0) 1
        (checkModel defaultConfig (sampleModel ''a'' (Some (99/10))))
   \<and> shouldShowAlert (ackGuard Warning 15 0) 1
        (checkModel defaultConfig (sampleModel ''b'' (Some 15)))"
  using
    shouldShowAlert_rules [of "ackGuard Critical (3/2) 1000"
      "checkModel defaultConfig (sampleModel ''a'' (Some (3/2)))" 999999999]
    shouldShowAlert_rules [of "ackGuard Critical (3/2) 1000"
      "checkModel defaultConfig (sampleModel ''a'' (Some 0))" 2000]
    shouldShowAlert_rules [of "ackGuard Warning 15 0"
      "checkModel defaultConfig (sampleModel ''a'' (Some 2))" 1]
    shouldShowAlert_rules [of "ackGuard Blocked 0 0"
      "checkModel defaultConfig (sampleModel ''a'' (Some 1))" 999999999]
    shouldShowAlert_rules [of "ackGuard Warning 15 0"
      "checkModel defaultConfig (sampleModel ''a'' (Some 15))" 600000]
    shouldShowAlert_rules [of "ackGuard Warning 15 0"
      "checkModel defaultConfig (sampleModel ''a'' (Some 15))" 600001]
    shouldShowAlert_rules [of "ackGuard Warning 15 0"
      "checkModel defaultConfig (sampleModel ''a'' (Some 10))" 1]
    shouldShowAlert_rules [of "ackGuard Warning 15 0"
      "checkModel defaultConfig (sampleModel ''a'' (Some (99/10)))" 1]
    shouldShowAlert_rules [of "ackGuard Warning 15 0"
      "checkModel defaultConfig (sampleModel ''b'' (Some 15))" 1]
  by (simp add: ackGuard_def newQuotaGuard_def defaultConfig_def sampleModel_def
      checkModel_def nullish_def Let_def)

section \<open>The guard flag after a snapshot update\<close>

lemma foldl_resetStep_config: "config (foldl resetStep g ms) = config g"
  by (induction ms arbitrary: g) (simp_all add: resetStep_def Let_def)

lemma resetPromptCredits_config: "config (resetPromptCredits g pc) = config g"
  by (simp add: resetPromptCredits_def Let_def split: option.splits)

lemma analyze_guardActive: "guardActive (analyzeQuotaState cfg s now) = guardEnabled cfg"
  by (simp add: analyzeQuotaState_def Let_def split: prod.splits option.splits)

text \<open>
  C10.  \<open>updateSnapshot\<close> leaves the configuration alone and stores a guard state whose
  \<open>guardActive\<close> is the configuration's \<open>guardEnabled\<close>.  \<open>toggleGuard\<close> negates the
  stored flag without touching the configuration, so the next \<open>updateSnapshot\<close> puts
  the configured value back.
\<close>

theorem updateSnapshot_restores_guardActive:
  "config (updateSnapshot g snapshot now) = config g
   \<and> guardActive (guardState (updateSnapshot g snapshot now)) = guardEnabled (config g)
   \<and> fst (toggleGuard g) = (\<not> guardActive (guardState g))
   \<and> guardActive (guardState (snd (toggleGuard g))) = (\<not> guardActive (guardState g))
   \<and> config (snd (toggleGuard g)) = config g
   \<and> guardActive (guardState (updateSnapshot (snd (toggleGuard g)) snapshot now))
       = guardEnabled (config g)"
  by (simp add: updateSnapshot_def Let_def toggleGuard_def foldl_resetStep_config
      resetPromptCredits_config analyze_guardActive)

text \<open>
  A new guard with the default configuration is active; toggled, it is not; after the
  next snapshot it is active again.
\<close>

theorem updateSnapshot_restores_guardActive_witness:
  "guardActive (guardState (newQuotaGuard defaultConfig))
   \<and> \<not> guardActive (guardState (snd (toggleGuard (newQuotaGuard defaultConfig))))
   \<and> guardActive (guardState (updateSnapshot (snd (toggleGuard (newQuotaGuard defaultConfig)))
        (sampleSnapshot [sampleModel ''a'' (Some 50)]) 0))"
  using updateSnapshot_restores_guardActive [of "newQuotaGuard defaultConfig"
      "sampleSnapshot [sampleModel ''a'' (Some 50)]" 0]
  by (simp add: newQuotaGuard_def defaultConfig_def)

section \<open>Reset detection\<close>

lemma resetStep_lastSeen:
  "lastSeenPercentages (resetStep g m) i
     = (if i = modelId m then Some (nullish (remainingPercentage m) 100)
        else lastSeenPercentages g i)"
  by (simp add: resetStep_def Let_def)

lemma resetStep_acks:
  "acknowledgments (resetStep g m) i
     = (if resetDetected (lastSeenPercentages g (modelId m)) (nullish (remainingPercentage m) 100)
           \<and> (i = modelId m \<or> i = promptCreditsId)
        then None else acknowledgments g i)"
  by (simp add: resetStep_def Let_def)

lemma foldl_resetStep_lastSeen_other:
  "i \<notin> set (map modelId ms) \<Longrightarrow>
   lastSeenPercentages (foldl resetStep g ms) i = lastSeenPercentages g i"
  by (induction ms arbitrary: g) (simp_all add: resetStep_lastSeen)

lemma foldl_resetStep_lastSeen:
  "distinct (map modelId ms) \<Longrightarrow> m \<in> set ms \<Longrightarrow>
   lastSeenPercentages (foldl resetStep g ms) (modelId m)
     = Some (nullish (remainingPercentage m) 100)"
proof (induction ms arbitrary: g)
  case Nil
  then show ?case by simp
next
  case (Cons a ms)
  show ?case
  proof (cases "m = a")
    case True
    with Cons.prems show ?thesis
      by (simp add: foldl_resetStep_lastSeen_other resetStep_lastSeen)
  next
    case False
    with Cons show ?thesis by simp
  qed
qed

lemma foldl_resetStep_acks:
  "distinct (map modelId ms) \<Longrightarrow>
   acknowledgments (foldl resetStep g ms) i
     = (if \<exists>m \<in> set ms.
             resetDetected (lastSeenPercentages g (modelId m)) (nullish (remainingPercentage m) 100)
             \<and> (i = modelId m \<or> i = promptCreditsId)
        then None else acknowledgments g i)"
proof (induction ms arbitrary: g)
  case Nil
  then show ?case by simp
next
  case (Cons a ms)
  have d: "distinct (map modelId ms)" and na: "modelId a \<notin> set (map modelId ms)"
    using Cons.prems by simp_all
  have seen: "\<And>m. m \<in> set ms \<Longrightarrow>
      lastSeenPercentages (resetStep g a) (modelId m) = lastSeenPercentages g (modelId m)"
    using na by (metis resetStep_lastSeen imageI list.set_map)
  have "acknowledgments (foldl resetStep (resetStep g a) ms) i
     = (if \<exists>m \<in> set ms.
             resetDetected (lastSeenPercentages (resetStep g a) (modelId m))
               (nullish (remainingPercentage m) 100)
             \<and> (i = modelId m \<or> i = promptCreditsId)
        then None else acknowledgments (resetStep g a) i)"
    using Cons.IH [OF d] .
  also have "\<dots> = (if \<exists>m \<in> set ms.
             resetDetected (lastSeenPercentages g (modelId m))
               (nullish (remainingPercentage m) 100)
             \<and> (i = modelId m \<or> i = promptCreditsId)
        then None else acknowledgments (resetStep g a) i)"
    using seen by (metis (no_types, lifting))
  finally show ?case
    by (auto simp: resetStep_acks)
qed

lemma resetPromptCredits_lastSeen:
  "lastSeenPercentages (resetPromptCredits g pc) i
     = (case pc of None \<Rightarrow> lastSeenPercentages g i
        | Some credits \<Rightarrow> if i = promptCreditsId then Some (pcRemainingPercentage credits)
                          else lastSeenPercentages g i)"
  by (simp add: resetPromptCredits_def Let_def split: option.splits)

lemma resetPromptCredits_acks:
  "acknowledgments (resetPromptCredits g pc) i
     = (case pc of None \<Rightarrow> acknowledgments g i
        | Some credits \<Rightarrow>
            if resetDetected (lastSeenPercentages g promptCreditsId) (pcRemainingPercentage credits)
               \<and> i = promptCreditsId
            then None else acknowledgments g i)"
  by (simp add: resetPromptCredits_def Let_def split: option.splits)

lemma updateSnapshot_maps:
  "lastSeenPercentages (updateSnapshot g s now)
     = lastSeenPercentages (resetPromptCredits (foldl resetStep g (models s)) (promptCredits s))"
  "acknowledgments (updateSnapshot g s now)
     = acknowledgments (resetPromptCredits (foldl resetStep g (models s)) (promptCredits s))"
  by (simp_all add: updateSnapshot_def Let_def)

lemma updateSnapshot_distinct_ids:
  assumes "distinct (map modelId (models snapshot))"
    and "promptCreditsId \<notin> set (map modelId (models snapshot))"
  shows
    "(\<forall>m \<in> set (models snapshot).
        lastSeenPercentages (updateSnapshot g snapshot now) (modelId m)
          = Some (nullish (remainingPercentage m) 100)
        \<and> acknowledgments (updateSnapshot g snapshot now) (modelId m)
          = (if resetDetected (lastSeenPercentages g (modelId m))
                  (nullish (remainingPercentage m) 100)
             then None else acknowledgments g (modelId m)))
     \<and> (\<forall>credits. promptCredits snapshot = Some credits \<longrightarrow>
          lastSeenPercentages (updateSnapshot g snapshot now) promptCreditsId
            = Some (pcRemainingPercentage credits))
     \<and> acknowledgments (updateSnapshot g snapshot now) promptCreditsId
          = (if (\<exists>m \<in> set (models snapshot).
                   resetDetected (lastSeenPercentages g (modelId m))
                     (nullish (remainingPercentage m) 100))
                \<or> (\<exists>credits. promptCredits snapshot = Some credits
                      \<and> resetDetected (lastSeenPercentages g promptCreditsId)
                           (pcRemainingPercentage credits))
             then None else acknowledgments g promptCreditsId)
     \<and> (\<forall>i. i \<notin> set (map modelId (models snapshot)) \<and> i \<noteq> promptCreditsId \<longrightarrow>
          lastSeenPercentages (updateSnapshot g snapshot now) i = lastSeenPercentages g i
          \<and> acknowledgments (updateSnapshot g snapshot now) i = acknowledgments g i)
     \<and> (\<forall>l c. resetDetected (Some l) c = (c \<ge> l + 2))
     \<and> (\<forall>c. \<not> resetDetected None c)"
proof -
  let ?G = "foldl resetStep g (models snapshot)"
  have seenpc: "lastSeenPercentages ?G promptCreditsId = lastSeenPercentages g promptCreditsId"
    using assms(2) by (rule foldl_resetStep_lastSeen_other)
  have ids: "\<And>m. m \<in> set (models snapshot) \<Longrightarrow> modelId m \<noteq> promptCreditsId"
    using assms(2) by (metis imageI list.set_map)
  have a: "\<forall>m \<in> set (models snapshot).
        lastSeenPercentages (updateSnapshot g snapshot now) (modelId m)
          = Some (nullish (remainingPercentage m) 100)
        \<and> acknowledgments (updateSnapshot g snapshot now) (modelId m)
          = (if resetDetected (lastSeenPercentages g (modelId m))
                  (nullish (remainingPercentage m) 100)
             then None else acknowledgments g (modelId m))"
  proof
    fix m assume m: "m \<in> set (models snapshot)"
    have same: "\<And>m'. m' \<in> set (models snapshot) \<Longrightarrow> modelId m' = modelId m \<Longrightarrow> m' = m"
      using assms(1) m by (meson distinct_map inj_onD)
    have 1: "lastSeenPercentages (updateSnapshot g snapshot now) (modelId m)
          = Some (nullish (remainingPercentage m) 100)"
      using ids [OF m] foldl_resetStep_lastSeen [OF assms(1) m, of g]
      by (simp add: updateSnapshot_maps resetPromptCredits_lastSeen split: option.splits)
    have 2: "acknowledgments (updateSnapshot g snapshot now) (modelId m)
          = (if resetDetected (lastSeenPercentages g (modelId m))
                  (nullish (remainingPercentage m) 100)
             then None else acknowledgments g (modelId m))"
    proof -
      have ex: "(\<exists>m' \<in> set (models snapshot).
             resetDetected (lastSeenPercentages g (modelId m'))
               (nullish (remainingPercentage m') 100)
             \<and> (modelId m = modelId m' \<or> modelId m = promptCreditsId))
         = resetDetected (lastSeenPercentages g (modelId m))
               (nullish (remainingPercentage m) 100)"
        using ids [OF m] m same by metis
      have "acknowledgments (updateSnapshot g snapshot now) (modelId m)
          = acknowledgments ?G (modelId m)"
        using ids [OF m]
        by (simp add: updateSnapshot_maps resetPromptCredits_acks split: option.splits)
      then show ?thesis
        by (simp only: foldl_resetStep_acks [OF assms(1)] ex)
    qed
    from 1 2 show "lastSeenPercentages (updateSnapshot g snapshot now) (modelId m)
          = Some (nullish (remainingPercentage m) 100)
        \<and> acknowledgments (updateSnapshot g snapshot now) (modelId m)
          = (if resetDetected (lastSeenPercentages g (modelId m))
                  (nullish (remainingPercentage m) 100)
             then None else acknowledgments g (modelId m))" by simp
  qed
  have b: "\<forall>credits. promptCredits snapshot = Some credits \<longrightarrow>
          lastSeenPercentages (updateSnapshot g snapshot now) promptCreditsId
            = Some (pcRemainingPercentage credits)"
    by (simp add: updateSnapshot_maps resetPromptCredits_lastSeen)
  have c: "acknowledgments (updateSnapshot g snapshot now) promptCreditsId
          = (if (\<exists>m \<in> set (models snapshot).
                   resetDetected (lastSeenPercentages g (modelId m))
                     (nullish (remainingPercentage m) 100))
                \<or> (\<exists>credits. promptCredits snapshot = Some credits
                      \<and> resetDetected (lastSeenPercentages g promptCreditsId)
                           (pcRemainingPercentage credits))
             then None else acknowledgments g promptCreditsId)"
  proof -
    have "acknowledgments ?G promptCreditsId
          = (if \<exists>m \<in> set (models snapshot).
                   resetDetected (lastSeenPercentages g (modelId m))
                     (nullish (remainingPercentage m) 100)
             then None else acknowledgments g promptCreditsId)"
      by (simp add: foldl_resetStep_acks [OF assms(1)])
    then show ?thesis
      by (cases "promptCredits snapshot")
        (simp_all add: updateSnapshot_maps resetPromptCredits_acks seenpc)
  qed
  have d: "\<forall>i. i \<notin> set (map modelId (models snapshot)) \<and> i \<noteq> promptCreditsId \<longrightarrow>
          lastSeenPercentages (updateSnapshot g snapshot now) i = lastSeenPercentages g i
          \<and> acknowledgments (updateSnapshot g snapshot now) i = acknowledgments g i"
  proof (intro allI impI)
    fix i assume i: "i \<notin> set (map modelId (models snapshot)) \<and> i \<noteq> promptCreditsId"
    have no: "\<not> (\<exists>m \<in> set (models snapshot).
             resetDetected (lastSeenPercentages g (modelId m))
               (nullish (remainingPercentage m) 100)
             \<and> (i = modelId m \<or> i = promptCreditsId))"
      using i by (metis imageI list.set_map)
    have "acknowledgments ?G i = acknowledgments g i"
      by (simp only: foldl_resetStep_acks [OF assms(1)] no if_False)
    moreover have "lastSeenPercentages ?G i = lastSeenPercentages g i"
      using i by (simp add: foldl_resetStep_lastSeen_other)
    ultimately show "lastSeenPercentages (updateSnapshot g snapshot now) i = lastSeenPercentages g i
          \<and> acknowledgments (updateSnapshot g snapshot now) i = acknowledgments g i"
      using i
      by (simp add: updateSnapshot_maps resetPromptCredits_acks resetPromptCredits_lastSeen
          split: option.splits)
  qed
  have e: "(\<forall>l c. resetDetected (Some l) c = (c \<ge> l + 2)) \<and> (\<forall>c. \<not> resetDetected None c)"
    by (simp add: resetDetected_def)
  from a b c d e show ?thesis by blast
qed


text \<open>
  C3.  \<open>updateSnapshot\<close> runs one step for every model of the snapshot, in order, and
  one for the prompt credits when there are any; nothing else touches the two maps.  A
  step for an id records the current percentage as last observed, whatever its test
  says, and clears the acknowledgment of that id and of the prompt credits exactly when
  a reset is detected: a last observed percentage \<open>l\<close> is recorded for the id and the
  current one is at least \<open>l + 2\<close>.  For a snapshot whose model ids are distinct and
  differ from \<open>prompt_credits\<close>, so that every id has one step, this reads: every model's
  current percentage (and the prompt credits') is recorded; a model's acknowledgment is
  cleared exactly when a reset is detected for it against the percentage recorded
  before the call, and otherwise kept; the prompt credits' acknowledgment is cleared
  exactly when a reset is detected for some model or for the prompt credits; other ids
  keep both entries.
\<close>

theorem updateSnapshot_reset_detection:
  "(\<forall>h m i.
      lastSeenPercentages (resetStep h m) i
        = (if i = modelId m then Some (nullish (remainingPercentage m) 100)
           else lastSeenPercentages h i)
      \<and> acknowledgments (resetStep h m) i
        = (if resetDetected (lastSeenPercentages h (modelId m))
                (nullish (remainingPercentage m) 100)
              \<and> (i = modelId m \<or> i = promptCreditsId)
           then None else acknowledgments h i))
   \<and> (\<forall>h credits i.
      lastSeenPercentages (resetPromptCredits h (Some credits)) i
        = (if i = promptCreditsId then Some (pcRemainingPercentage credits)
           else lastSeenPercentages h i)
      \<and> acknowledgments (resetPromptCredits h (Some credits)) i
        = (if resetDetected (lastSeenPercentages h promptCreditsId)
                (pcRemainingPercentage credits)
              \<and> i = promptCreditsId
           then None else acknowledgments h i))
   \<and> (\<forall>h. resetPromptCredits h None = h)
   \<and> lastSeenPercentages (updateSnapshot g snapshot now)
       = lastSeenPercentages
           (resetPromptCredits (foldl resetStep g (models snapshot)) (promptCredits snapshot))
   \<and> acknowledgments (updateSnapshot g snapshot now)
       = acknowledgments
           (resetPromptCredits (foldl resetStep g (models snapshot)) (promptCredits snapshot))
   \<and> (\<forall>l c. resetDetected (Some l) c = (c \<ge> l + 2))
   \<and> (\<forall>c. \<not> resetDetected None c)
   \<and> (distinct (map modelId (models snapshot))
        \<and> promptCreditsId \<notin> set (map modelId (models snapshot)) \<longrightarrow>
        (\<forall>m \<in> set (models snapshot).
           lastSeenPercentages (updateSnapshot g snapshot now) (modelId m)
             = Some (nullish (remainingPercentage m) 100)
           \<and> acknowledgments (updateSnapshot g snapshot now) (modelId m)
             = (if resetDetected (lastSeenPercentages g (modelId m))
                     (nullish (remainingPercentage m) 100)
                then None else acknowledgments g (modelId m)))
        \<and> (\<forall>credits. promptCredits snapshot = Some credits \<longrightarrow>
             lastSeenPercentages (updateSnapshot g snapshot now) promptCreditsId
               = Some (pcRemainingPercentage credits))
        \<and> acknowledgments (updateSnapshot g snapshot now) promptCreditsId
             = (if (\<exists>m \<in> set (models snapshot).
                      resetDetected (lastSeenPercentages g (modelId m))
                        (nullish (remainingPercentage m) 100))
                   \<or> (\<exists>credits. promptCredits snapshot = Some credits
                         \<and> resetDetected (lastSeenPercentages g promptCreditsId)
                              (pcRemainingPercentage credits))
                then None else acknowledgments g promptCreditsId)
        \<and> (\<forall>i. i \<notin> set (map modelId (models snapshot)) \<and> i \<noteq> promptCreditsId \<longrightarrow>
             lastSeenPercentages (updateSnapshot g snapshot now) i = lastSeenPercentages g i
             \<and> acknowledgments (updateSnapshot g snapshot now) i = acknowledgments g i))"
proof -
  have steps: "\<forall>h m i.
      lastSeenPercentages (resetStep h m) i
        = (if i = modelId m then Some (nullish (remainingPercentage m) 100)
           else lastSeenPercentages h i)
      \<and> acknowledgments (resetStep h m) i
        = (if resetDetected (lastSeenPercentages h (modelId m))
                (nullish (remainingPercentage m) 100)
              \<and> (i = modelId m \<or> i = promptCreditsId)
           then None else acknowledgments h i)"
    by (simp add: resetStep_lastSeen resetStep_acks)
  have credits: "\<forall>h credits i.
      lastSeenPercentages (resetPromptCredits h (Some credits)) i
        = (if i = promptCreditsId then Some (pcRemainingPercentage credits)
           else lastSeenPercentages h i)
      \<and> acknowledgments (resetPromptCredits h (Some credits)) i
        = (if resetDetected (lastSeenPercentages h promptCreditsId)
                (pcRemainingPercentage credits)
              \<and> i = promptCreditsId
           then None else acknowledgments h i)"
    by (simp add: resetPromptCredits_lastSeen resetPromptCredits_acks)
  have none: "\<forall>h. resetPromptCredits h None = h"
    by (simp add: resetPromptCredits_def)
  have test: "(\<forall>l c. resetDetected (Some l) c = (c \<ge> l + 2)) \<and> (\<forall>c. \<not> resetDetected None c)"
    by (simp add: resetDetected_def)
  from steps credits none test updateSnapshot_maps [of g snapshot now]
    updateSnapshot_distinct_ids [of snapshot g now]
  show ?thesis by blast
qed

text \<open>
  Models \<open>a\<close> and \<open>b\<close> were last seen at 10.  The jump of \<open>a\<close> to 12 (exactly 2.0)
  clears its acknowledgment and that of the prompt credits; the jump of \<open>b\<close> to 11.9
  leaves its acknowledgment; both new percentages are recorded.
\<close>

theorem updateSnapshot_reset_detection_witness:
  "distinct (map modelId [sampleModel ''a'' (Some 12), sampleModel ''b'' (Some (119/10))])
   \<and> promptCreditsId \<notin> set (map modelId [sampleModel ''a'' (Some 12), sampleModel ''b'' (Some (119/10))])
   \<and> acknowledgments (updateSnapshot seenGuard
        (sampleSnapshot [sampleModel ''a'' (Some 12), sampleModel ''b'' (Some (119/10))]) 0) ''a''
       = None
   \<and> acknowledgments (updateSnapshot seenGuard
        (sampleSnapshot [sampleModel ''a'' (Some 12), sampleModel ''b'' (Some (119/10))]) 0) ''b''
       = Some \<lparr> ackLevel = Warning, ackTimestamp = 0, ackPercentage = 10 \<rparr>
   \<and> acknowledgments (updateSnapshot seenGuard
        (sampleSnapshot [sampleModel ''a'' (Some 12), sampleModel ''b'' (Some (119/10))]) 0)
        promptCreditsId = None
   \<and> lastSeenPercentages (updateSnapshot seenGuard
        (sampleSnapshot [sampleModel ''a'' (Some 12), sampleModel ''b'' (Some (119/10))]) 0) ''a''
       = Some 12
   \<and> lastSeenPercentages (updateSnapshot seenGuard
        (sampleSnapshot [sampleModel ''a'' (Some 12), sampleModel ''b'' (Some (119/10))]) 0) ''b''
       = Some (119/10)"
  using updateSnapshot_reset_detection [where g = seenGuard and now = 0 and snapshot =
      "sampleSnapshot [sampleModel ''a'' (Some 12), sampleModel ''b'' (Some (119/10))]"]
  by (simp add: sampleSnapshot_def sampleModel_def seenGuard_def promptCreditsId_def
      nullish_def resetDetected_def newQuotaGuard_def)

section \<open>Port validation\<close>

lemma findWorkingPort_none:
  "\<forall>p \<in> set ports. \<not> testPort world attempt p token \<Longrightarrow>
   findWorkingPort world attempt ports token = (None, map ProbePort ports)"
  by (induction ports) simp_all

lemma findWorkingPort_first:
  "\<forall>p \<in> set before. \<not> testPort world attempt p token \<Longrightarrow>
   testPort world attempt port token \<Longrightarrow>
   findWorkingPort world attempt (before @ port # after) token
     = (Some port, map ProbePort (before @ [port]))"
  by (induction before) simp_all

text \<open>
  C6.  \<open>findWorkingPort\<close> probes the ports in the order given.  When a port works and
  none before it does, that port is returned and the probes made are those of the ports
  up to it: no port after it is probed.  When no port works the result is \<open>null\<close> and
  every port was probed once.  A port works exactly when its probe ends with a response
  of status 200 whose body parses as JSON.
\<close>

theorem findWorkingPort_stops_at_first_working:
  "(\<forall>before port after.
      ports = before @ port # after
      \<and> (\<forall>p \<in> set before. \<not> testPort world attempt p token)
      \<and> testPort world attempt port token
      \<longrightarrow> findWorkingPort world attempt ports token
            = (Some port, map ProbePort (before @ [port])))
   \<and> ((\<forall>p \<in> set ports. \<not> testPort world attempt p token)
        \<longrightarrow> findWorkingPort world attempt ports token = (None, map ProbePort ports))
   \<and> testPort world attempt port token
        = (\<exists>body. httpsRequest world attempt port token = Responded 200 body
                  \<and> jsonParses world body)"
proof -
  have "testPort world attempt port token
        = (\<exists>body. httpsRequest world attempt port token = Responded 200 body
                  \<and> jsonParses world body)"
    by (auto simp: testPort_def split: ProbeOutcome.splits)
  then show ?thesis
    using findWorkingPort_none findWorkingPort_first by blast
qed

text \<open>
  At attempt 2 of the sample world port 81 fails and ports 82 and 83 both work: of the
  ports 81, 82, 83 the second is returned and the third is not probed.  At attempt 1
  neither 81 nor 82 works: both are probed and the result is \<open>null\<close>.
\<close>

theorem findWorkingPort_stops_at_first_working_witness:
  "testPort retryWorld 2 83 ''ab-1''
   \<and> findWorkingPort retryWorld 2 [81, 82, 83] ''ab-1'' = (Some 82, [ProbePort 81, ProbePort 82])
   \<and> findWorkingPort retryWorld 1 [81, 82] ''ab-1'' = (None, [ProbePort 81, ProbePort 82])"
proof -
  have t: "\<not> testPort retryWorld 2 81 ''ab-1''" "testPort retryWorld 2 82 ''ab-1''"
    "testPort retryWorld 2 83 ''ab-1''"
    "\<not> testPort retryWorld 1 81 ''ab-1''" "\<not> testPort retryWorld 1 82 ''ab-1''"
    by (simp_all add: testPort_def retryWorld_def)
  have "findWorkingPort retryWorld 2 ([81] @ 82 # [83]) ''ab-1''
          = (Some 82, map ProbePort ([81] @ [82]))"
    using findWorkingPort_stops_at_first_working [of "[81, 82, 83]" retryWorld 2 "''ab-1''"] t
    by simp
  moreover have "findWorkingPort retryWorld 1 [81, 82] ''ab-1'' = (None, map ProbePort [81, 82])"
    using findWorkingPort_stops_at_first_working [of "[81, 82]" retryWorld 1 "''ab-1''"] t
    by simp
  ultimately show ?thesis using t by simp
qed

section \<open>Bounded retries of the detection\<close>

lemma waits_append: "waits (xs @ ys) = waits xs @ waits ys"
  by (induction xs rule: waits.induct) simp_all

lemma findWorkingPort_effects:
  "findWorkingPort world k ps t = (r, effs) \<Longrightarrow>
   filter isRunProcessList effs = [] \<and> waits effs = []"
  by (induction ps arbitrary: r effs) (auto split: if_splits prod.splits)

lemma getListeningPorts_effects:
  "getListeningPorts strategy world k i = (ps, effs) \<Longrightarrow>
   filter isRunProcessList effs = [] \<and> waits effs = []"
  by (auto simp: getListeningPorts_def Let_def split: ExecOutcome.splits)

lemma attemptDetection_effects:
  "processListRuns (snd (attemptDetection strategy processName world k)) = 1
   \<and> waits (snd (attemptDetection strategy processName world k)) = []"
  by (auto simp: attemptDetection_def processListRuns_def Let_def waits_append
      dest!: findWorkingPort_effects getListeningPorts_effects
      split: ExecOutcome.splits option.splits prod.splits)

lemma processListRuns_append:
  "processListRuns (xs @ ys) = processListRuns xs + processListRuns ys"
  by (simp add: processListRuns_def)

lemma processListRuns_wait: "processListRuns [Wait d] = 0" and processListRuns_nil: "processListRuns [] = 0"
  by (simp_all add: processListRuns_def)

lemma processListRuns_concat:
  "(\<And>k. processListRuns (f k) = 1) \<Longrightarrow>
   processListRuns (concat (map f [a..<n])) = n - a"
  by (induction n) (simp_all add: processListRuns_append processListRuns_def Suc_diff_le)

lemma waits_concat:
  "(\<And>k. a \<le> k \<Longrightarrow> k < n \<Longrightarrow> waits (f k) = [d]) \<Longrightarrow>
   waits (concat (map f [a..<n])) = replicate (n - a) d"
proof (induction n)
  case 0
  show ?case by simp
next
  case (Suc n)
  show ?case
  proof (cases "a \<le> n")
    case True
    have "waits (concat (map f [a..<n])) = replicate (n - a) d"
      using Suc.prems by (intro Suc.IH) simp_all
    moreover have "waits (f n) = [d]" using Suc.prems True by simp
    ultimately show ?thesis
      using True by (simp add: waits_append Suc_diff_le replicate_append_same)
  next
    case False
    then show ?thesis by simp
  qed
qed

lemma detectLoop_all_fail:
  "(\<And>k. a \<le> k \<Longrightarrow> k < n \<Longrightarrow> fst (attemptDetection strategy processName world k) = None) \<Longrightarrow>
   detectLoop strategy processName world n a
     = (None, concat (map (\<lambda>k. snd (attemptDetection strategy processName world k)
                             @ (if k < n - 1 then [Wait 500] else [])) [a..<n]))"
proof (induction "n - a" arbitrary: a)
  case 0
  then show ?case by (simp add: detectLoop.simps [of _ _ _ n a])
next
  case (Suc d)
  have lt: "a < n" using Suc.hyps(2) by simp
  obtain effs where att: "attemptDetection strategy processName world a = (None, effs)"
    using Suc.prems [of a] lt by (cases "attemptDetection strategy processName world a") auto
  have ih: "detectLoop strategy processName world n (Suc a)
     = (None, concat (map (\<lambda>k. snd (attemptDetection strategy processName world k)
                             @ (if k < n - 1 then [Wait 500] else [])) [Suc a..<n]))"
    using Suc.hyps(2) Suc.prems by (intro Suc.hyps(1)) simp_all
  have step: "detectLoop strategy processName world n a
     = (None, effs @ (if a < n - 1 then [Wait 500] else [])
          @ concat (map (\<lambda>k. snd (attemptDetection strategy processName world k)
                             @ (if k < n - 1 then [Wait 500] else [])) [Suc a..<n]))"
    by (subst detectLoop.simps) (simp add: lt att ih)
  have "[a..<n] = a # [Suc a..<n]" using lt by (simp add: upt_conv_Cons)
  then show ?case by (simp add: step att)
qed

lemma detectLoop_first_success:
  "a \<le> k \<Longrightarrow> k < n \<Longrightarrow>
   (\<And>j. a \<le> j \<Longrightarrow> j < k \<Longrightarrow> fst (attemptDetection strategy processName world j) = None) \<Longrightarrow>
   fst (attemptDetection strategy processName world k) = Some info \<Longrightarrow>
   detectLoop strategy processName world n a
     = (Some info,
        concat (map (\<lambda>j. snd (attemptDetection strategy processName world j) @ [Wait 500]) [a..<k])
        @ snd (attemptDetection strategy processName world k))"
proof (induction "k - a" arbitrary: a)
  case 0
  then have ak: "a = k" by simp
  obtain effs where att: "attemptDetection strategy processName world k = (Some info, effs)"
    using "0.prems"(4) by (cases "attemptDetection strategy processName world k") auto
  show ?case
    unfolding ak by (subst detectLoop.simps) (simp add: "0.prems"(2) att)
next
  case (Suc d)
  have lt: "a < k" using Suc.hyps(2) by simp
  obtain effs where att: "attemptDetection strategy processName world a = (None, effs)"
    using Suc.prems(3) [of a] lt by (cases "attemptDetection strategy processName world a") auto
  have ih: "detectLoop strategy processName world n (Suc a)
     = (Some info,
        concat (map (\<lambda>j. snd (attemptDetection strategy processName world j) @ [Wait 500])
                  [Suc a..<k])
        @ snd (attemptDetection strategy processName world k))"
    using Suc.hyps(2) Suc.prems lt by (intro Suc.hyps(1)) simp_all
  have an: "a < n" and an1: "a < n - 1" using lt Suc.prems(2) by simp_all
  have step: "detectLoop strategy processName world n a
     = (Some info, effs @ [Wait 500]
          @ concat (map (\<lambda>j. snd (attemptDetection strategy processName world j) @ [Wait 500])
                  [Suc a..<k])
          @ snd (attemptDetection strategy processName world k))"
    by (subst detectLoop.simps) (use an an1 in \<open>simp add: att ih\<close>)
  have "[a..<k] = a # [Suc a..<k]" using lt by (simp add: upt_conv_Cons)
  then show ?case by (simp add: step att)
qed

lemma attemptDetection_success_iff:
  "fst (attemptDetection strategy processName world k) = Some info
   \<longleftrightarrow> (\<exists>stdout stderr parsed ports listed probed.
         execAsync world k (getProcessListCommand strategy processName)
           = ExecResolved stdout stderr
         \<and> parseProcessInfo strategy stdout = Some parsed
         \<and> getListeningPorts strategy world k (pid parsed) = (ports, listed)
         \<and> ports \<noteq> []
         \<and> findWorkingPort world k ports (csrfToken parsed) = (Some (connectPort info), probed)
         \<and> connectPort info \<noteq> 0
         \<and> foundExtensionPort info = extensionPort parsed
         \<and> foundCsrfToken info = csrfToken parsed)"
  by (cases info)
    (auto simp: attemptDetection_def Let_def
      split: ExecOutcome.splits option.splits prod.splits if_splits)

lemma first_success_or_all_fail:
  "(\<forall>k < (n::nat). f k = None)
   \<or> (\<exists>k < n. (\<forall>j < k. f j = None) \<and> (\<exists>info. f k = Some info))"
proof (cases "\<forall>k < n. f k = None")
  case True
  then show ?thesis by simp
next
  case False
  then have ex: "\<exists>k. k < n \<and> f k \<noteq> None" by blast
  define m where "m = (LEAST k. k < n \<and> f k \<noteq> None)"
  have m: "m < n \<and> f m \<noteq> None"
    unfolding m_def using LeastI_ex [of "\<lambda>k. k < n \<and> f k \<noteq> None"] ex by simp
  have least: "\<not> (j < n \<and> f j \<noteq> None)" if "j < m" for j
    using not_less_Least [of j "\<lambda>k. k < n \<and> f k \<noteq> None"] that
    unfolding m_def by blast
  have "\<forall>j < m. f j = None"
    using least m by (metis less_trans)
  with m show ?thesis by blast
qed

text \<open>
  C5.  \<open>detectProcessInfo\<close> with the retry bound \<open>maxRetries\<close> (a natural number) runs
  the process-list command at most \<open>maxRetries\<close> times, once in every attempt.  When
  every attempt below the bound fails it returns \<open>null\<close> after exactly \<open>maxRetries\<close>
  runs, with a delay of 500 ms after every attempt but the last.  When attempt \<open>k\<close> is
  the first to succeed it returns that attempt's result after \<open>k + 1\<close> runs and \<open>k\<close>
  delays, and nothing follows the successful attempt.  It returns \<open>null\<close> only when
  every attempt failed.  An attempt succeeds exactly when the command resolves, its
  output parses, the port list is not empty and the validation returns a port (one
  that is not 0, by the truthiness test); the result then holds the extension port and
  the token of the parse and the port of the validation.  Everything else, a rejected
  command included, is a failed attempt.
\<close>

theorem detectProcessInfo_bounded_retries:
  "processListRuns (snd (detectProcessInfo strategy processName world maxRetries)) \<le> maxRetries
   \<and> (\<forall>k. processListRuns (snd (attemptDetection strategy processName world k)) = 1)
   \<and> ((\<forall>k < maxRetries. fst (attemptDetection strategy processName world k) = None) \<longrightarrow>
        detectProcessInfo strategy processName world maxRetries
          = (None,
             concat (map (\<lambda>k. snd (attemptDetection strategy processName world k)
                              @ (if k < maxRetries - 1 then [Wait 500] else []))
                       [0..<maxRetries]))
        \<and> processListRuns (snd (detectProcessInfo strategy processName world maxRetries))
            = maxRetries
        \<and> waits (snd (detectProcessInfo strategy processName world maxRetries))
            = replicate (maxRetries - 1) 500)
   \<and> (\<forall>k info.
        k < maxRetries
        \<and> (\<forall>j < k. fst (attemptDetection strategy processName world j) = None)
        \<and> fst (attemptDetection strategy processName world k) = Some info \<longrightarrow>
        detectProcessInfo strategy processName world maxRetries
          = (Some info,
             concat (map (\<lambda>j. snd (attemptDetection strategy processName world j) @ [Wait 500])
                       [0..<k])
             @ snd (attemptDetection strategy processName world k))
        \<and> processListRuns (snd (detectProcessInfo strategy processName world maxRetries))
            = k + 1
        \<and> waits (snd (detectProcessInfo strategy processName world maxRetries))
            = replicate k 500)
   \<and> (fst (detectProcessInfo strategy processName world maxRetries) = None \<longrightarrow>
        (\<forall>k < maxRetries. fst (attemptDetection strategy processName world k) = None))
   \<and> (\<forall>k info.
        fst (attemptDetection strategy processName world k) = Some info
        \<longleftrightarrow> (\<exists>stdout stderr parsed ports listed probed.
              execAsync world k (getProcessListCommand strategy processName)
                = ExecResolved stdout stderr
              \<and> parseProcessInfo strategy stdout = Some parsed
              \<and> getListeningPorts strategy world k (pid parsed) = (ports, listed)
              \<and> ports \<noteq> []
              \<and> findWorkingPort world k ports (csrfToken parsed)
                  = (Some (connectPort info), probed)
              \<and> connectPort info \<noteq> 0
              \<and> foundExtensionPort info = extensionPort parsed
              \<and> foundCsrfToken info = csrfToken parsed))"
proof -
  let ?att = "\<lambda>k. attemptDetection strategy processName world k"
  let ?res = "detectProcessInfo strategy processName world maxRetries"
  have runs1: "\<And>k. processListRuns (snd (?att k)) = 1"
    by (simp add: attemptDetection_effects)
  have nowait: "\<And>k. waits (snd (?att k)) = []"
    by (simp add: attemptDetection_effects)
  have fail: "?res = (None, concat (map (\<lambda>k. snd (?att k)
                              @ (if k < maxRetries - 1 then [Wait 500] else []))
                       [0..<maxRetries]))
        \<and> processListRuns (snd ?res) = maxRetries
        \<and> waits (snd ?res) = replicate (maxRetries - 1) 500"
    if all: "\<forall>k < maxRetries. fst (?att k) = None"
  proof -
    have eq: "?res = (None, concat (map (\<lambda>k. snd (?att k)
                              @ (if k < maxRetries - 1 then [Wait 500] else []))
                       [0..<maxRetries]))"
      unfolding detectProcessInfo_def using all by (intro detectLoop_all_fail) simp
    have r: "processListRuns (snd ?res) = maxRetries"
      unfolding eq snd_conv
      by (subst processListRuns_concat)
        (simp_all add: processListRuns_append runs1 processListRuns_wait processListRuns_nil)
    have w: "waits (snd ?res) = replicate (maxRetries - 1) 500"
    proof (cases maxRetries)
      case 0
      then show ?thesis unfolding eq snd_conv by simp
    next
      case (Suc m)
      have w1: "waits (concat (map (\<lambda>k. snd (?att k) @ (if k < m then [Wait 500] else []))
                         [0..<m])) = replicate (m - 0) 500"
        by (rule waits_concat) (simp add: waits_append nowait)
      have "waits (snd ?res)
              = waits (concat (map (\<lambda>k. snd (?att k)
                              @ (if k < maxRetries - 1 then [Wait 500] else []))
                       [0..<maxRetries]))"
        by (simp only: eq snd_conv)
      also have "\<dots> = replicate (maxRetries - 1) 500"
        unfolding Suc by (simp add: waits_append nowait w1)
      finally show ?thesis .
    qed
    from eq r w show ?thesis by simp
  qed
  have succ: "?res = (Some info,
             concat (map (\<lambda>j. snd (?att j) @ [Wait 500]) [0..<k]) @ snd (?att k))
        \<and> processListRuns (snd ?res) = k + 1
        \<and> waits (snd ?res) = replicate k 500"
    if k: "k < maxRetries" and before: "\<forall>j < k. fst (?att j) = None"
      and at: "fst (?att k) = Some info" for k info
  proof -
    have eq: "?res = (Some info,
             concat (map (\<lambda>j. snd (?att j) @ [Wait 500]) [0..<k]) @ snd (?att k))"
      unfolding detectProcessInfo_def using k before at
      by (intro detectLoop_first_success) simp_all
    have r: "processListRuns (snd ?res) = k + 1"
      unfolding eq snd_conv processListRuns_append
      by (subst processListRuns_concat)
        (simp_all add: processListRuns_append runs1 processListRuns_wait processListRuns_nil)
    have w0: "waits (concat (map (\<lambda>j. snd (?att j) @ [Wait 500]) [0..<k]))
                = replicate (k - 0) 500"
      by (rule waits_concat) (simp add: waits_append nowait)
    have w: "waits (snd ?res) = replicate k 500"
      unfolding eq snd_conv by (simp add: waits_append nowait w0)
    from eq r w show ?thesis by simp
  qed
  have cases: "(\<forall>k < maxRetries. fst (?att k) = None)
     \<or> (\<exists>k < maxRetries. (\<forall>j < k. fst (?att j) = None) \<and> (\<exists>info. fst (?att k) = Some info))"
    by (rule first_success_or_all_fail)
  have bound: "processListRuns (snd ?res) \<le> maxRetries"
    using cases
  proof
    assume "\<forall>k < maxRetries. fst (?att k) = None"
    from fail [OF this] have "processListRuns (snd ?res) = maxRetries" by blast
    then show ?thesis by simp
  next
    assume "\<exists>k < maxRetries. (\<forall>j < k. fst (?att j) = None) \<and> (\<exists>info. fst (?att k) = Some info)"
    then obtain k info where k: "k < maxRetries" and b: "\<forall>j < k. fst (?att j) = None"
      and a: "fst (?att k) = Some info" by blast
    from succ [OF k b a] have "processListRuns (snd ?res) = k + 1" by blast
    with k show ?thesis by simp
  qed
  have none: "fst ?res = None \<longrightarrow> (\<forall>k < maxRetries. fst (?att k) = None)"
    using cases
  proof
    assume "\<forall>k < maxRetries. fst (?att k) = None"
    then show ?thesis by simp
  next
    assume "\<exists>k < maxRetries. (\<forall>j < k. fst (?att j) = None) \<and> (\<exists>info. fst (?att k) = Some info)"
    then obtain k info where k: "k < maxRetries" and b: "\<forall>j < k. fst (?att j) = None"
      and a: "fst (?att k) = Some info" by blast
    have "fst ?res = Some info" by (simp add: conjunct1 [OF succ [OF k b a]])
    then show ?thesis by simp
  qed
  have shape: "\<forall>k info.
        fst (?att k) = Some info
        \<longleftrightarrow> (\<exists>stdout stderr parsed ports listed probed.
              execAsync world k (getProcessListCommand strategy processName)
                = ExecResolved stdout stderr
              \<and> parseProcessInfo strategy stdout = Some parsed
              \<and> getListeningPorts strategy world k (pid parsed) = (ports, listed)
              \<and> ports \<noteq> []
              \<and> findWorkingPort world k ports (csrfToken parsed)
                  = (Some (connectPort info), probed)
              \<and> connectPort info \<noteq> 0
              \<and> foundExtensionPort info = extensionPort parsed
              \<and> foundCsrfToken info = csrfToken parsed)"
    using attemptDetection_success_iff by blast
  show ?thesis
  proof (intro conjI)
    show "processListRuns (snd ?res) \<le> maxRetries" by (rule bound)
    show "\<forall>k. processListRuns (snd (?att k)) = 1" using runs1 by simp
    show "(\<forall>k < maxRetries. fst (?att k) = None) \<longrightarrow>
        ?res = (None, concat (map (\<lambda>k. snd (?att k)
                              @ (if k < maxRetries - 1 then [Wait 500] else []))
                       [0..<maxRetries]))
        \<and> processListRuns (snd ?res) = maxRetries
        \<and> waits (snd ?res) = replicate (maxRetries - 1) 500"
      using fail by (intro impI)
    show "\<forall>k info.
        k < maxRetries \<and> (\<forall>j < k. fst (?att j) = None) \<and> fst (?att k) = Some info \<longrightarrow>
        ?res = (Some info,
             concat (map (\<lambda>j. snd (?att j) @ [Wait 500]) [0..<k]) @ snd (?att k))
        \<and> processListRuns (snd ?res) = k + 1
        \<and> waits (snd ?res) = replicate k 500"
      using succ by (intro allI impI) simp
    show "fst ?res = None \<longrightarrow> (\<forall>k < maxRetries. fst (?att k) = None)" by (rule none)
    show "\<forall>k info.
        fst (?att k) = Some info
        \<longleftrightarrow> (\<exists>stdout stderr parsed ports listed probed.
              execAsync world k (getProcessListCommand strategy processName)
                = ExecResolved stdout stderr
              \<and> parseProcessInfo strategy stdout = Some parsed
              \<and> getListeningPorts strategy world k (pid parsed) = (ports, listed)
              \<and> ports \<noteq> []
              \<and> findWorkingPort world k ports (csrfToken parsed)
                  = (Some (connectPort info), probed)
              \<and> connectPort info \<noteq> 0
              \<and> foundExtensionPort info = extensionPort parsed
              \<and> foundCsrfToken info = csrfToken parsed)"
      by (rule shape)
  qed
qed

lemma retryWorld_attempts:
  "fst (attemptDetection windowsStrategy ''ls.exe'' retryWorld 0) = None"
  "fst (attemptDetection windowsStrategy ''ls.exe'' retryWorld 1) = None"
  "fst (attemptDetection windowsStrategy ''ls.exe'' retryWorld 2)
     = Some \<lparr> foundExtensionPort = Some 9, connectPort = 82, foundCsrfToken = ''ab-1'' \<rparr>"
  by code_simp+

text \<open>
  In the sample world the first two attempts fail and the third succeeds.  With three
  retries the result is the third attempt's, after three runs of the process-list
  command and two delays; with two retries the result is \<open>null\<close> after two runs and
  one delay.
\<close>

theorem detectProcessInfo_bounded_retries_witness:
  "fst (detectProcessInfo windowsStrategy ''ls.exe'' retryWorld 3)
     = Some \<lparr> foundExtensionPort = Some 9, connectPort = 82, foundCsrfToken = ''ab-1'' \<rparr>
   \<and> processListRuns (snd (detectProcessInfo windowsStrategy ''ls.exe'' retryWorld 3)) = 3
   \<and> waits (snd (detectProcessInfo windowsStrategy ''ls.exe'' retryWorld 3)) = [500, 500]
   \<and> fst (detectProcessInfo windowsStrategy ''ls.exe'' retryWorld 2) = None
   \<and> processListRuns (snd (detectProcessInfo windowsStrategy ''ls.exe'' retryWorld 2)) = 2
   \<and> waits (snd (detectProcessInfo windowsStrategy ''ls.exe'' retryWorld 2)) = [500]"
proof -
  let ?att = "attemptDetection windowsStrategy ''ls.exe'' retryWorld"
  have before: "\<forall>j < (2::nat). fst (?att j) = None"
    using retryWorld_attempts(1,2) by (simp add: less_2_cases_iff)
  have three: "(2::nat) < 3 \<and> (\<forall>j < 2. fst (?att j) = None)
      \<and> fst (?att 2)
          = Some \<lparr> foundExtensionPort = Some 9, connectPort = 82, foundCsrfToken = ''ab-1'' \<rparr>"
    using before retryWorld_attempts(3) by simp
  have a: "detectProcessInfo windowsStrategy ''ls.exe'' retryWorld 3
          = (Some \<lparr> foundExtensionPort = Some 9, connectPort = 82, foundCsrfToken = ''ab-1'' \<rparr>,
             concat (map (\<lambda>j. snd (?att j) @ [Wait 500]) [0..<2]) @ snd (?att 2))
        \<and> processListRuns (snd (detectProcessInfo windowsStrategy ''ls.exe'' retryWorld 3))
            = 2 + 1
        \<and> waits (snd (detectProcessInfo windowsStrategy ''ls.exe'' retryWorld 3))
            = replicate 2 500"
    using detectProcessInfo_bounded_retries [of windowsStrategy "''ls.exe''" retryWorld 3] three
    by blast
  have b: "detectProcessInfo windowsStrategy ''ls.exe'' retryWorld 2
          = (None,
             concat (map (\<lambda>k. snd (?att k) @ (if k < 2 - 1 then [Wait 500] else [])) [0..<2]))
        \<and> processListRuns (snd (detectProcessInfo windowsStrategy ''ls.exe'' retryWorld 2)) = 2
        \<and> waits (snd (detectProcessInfo windowsStrategy ''ls.exe'' retryWorld 2))
            = replicate (2 - 1) 500"
    using detectProcessInfo_bounded_retries [of windowsStrategy "''ls.exe''" retryWorld 2] before
    by blast
  have a1: "fst (detectProcessInfo windowsStrategy ''ls.exe'' retryWorld 3)
     = Some \<lparr> foundExtensionPort = Some 9, connectPort = 82, foundCsrfToken = ''ab-1'' \<rparr>"
    by (simp add: conjunct1 [OF a])
  have "processListRuns (snd (detectProcessInfo windowsStrategy ''ls.exe'' retryWorld 3)) = 2 + 1"
    using a by blast
  then have a2:
    "processListRuns (snd (detectProcessInfo windowsStrategy ''ls.exe'' retryWorld 3)) = 3"
    by simp
  have "waits (snd (detectProcessInfo windowsStrategy ''ls.exe'' retryWorld 3)) = replicate 2 500"
    using a by blast
  then have a3:
    "waits (snd (detectProcessInfo windowsStrategy ''ls.exe'' retryWorld 3)) = [500, 500]"
    by (simp add: numeral_2_eq_2)
  have b1: "fst (detectProcessInfo windowsStrategy ''ls.exe'' retryWorld 2) = None"
    by (simp add: conjunct1 [OF b])
  have b2: "processListRuns (snd (detectProcessInfo windowsStrategy ''ls.exe'' retryWorld 2)) = 2"
    using b by blast
  have "waits (snd (detectProcessInfo windowsStrategy ''ls.exe'' retryWorld 2))
          = replicate (2 - 1) 500"
    using b by blast
  then have b3: "waits (snd (detectProcessInfo windowsStrategy ''ls.exe'' retryWorld 2)) = [500]"
    by simp
  from a1 a2 a3 b1 b2 b3 show ?thesis by blast
qed

section \<open>Normalisation of the status response\<close>

lemma parseModel_fields:
  "remainingFraction (parseModel api now m info) = quotaRemainingFraction info"
  "remainingPercentage (parseModel api now m info)
     = (case quotaRemainingFraction info of None \<Rightarrow> None | Some f \<Rightarrow> Some (f * 100))"
  "isExhausted (parseModel api now m info) = (quotaRemainingFraction info = Some 0)"
  "resetTime (parseModel api now m info) = dateParse api (quotaResetTime info)"
  "timeUntilReset (parseModel api now m info) = dateParse api (quotaResetTime info) - now"
  "timeUntilResetFormatted (parseModel api now m info)
     = formatTime api (dateParse api (quotaResetTime info) - now)
         (dateParse api (quotaResetTime info))"
  by (simp_all add: parseModel_def Let_def)

lemma parseModels_inputs:
  "map remainingFraction (parseModels api clock k ms)
     = map quotaRemainingFraction (List.map_filter quotaInfo ms)
   \<and> map resetTime (parseModels api clock k ms)
     = map (\<lambda>info. dateParse api (quotaResetTime info)) (List.map_filter quotaInfo ms)"
  by (induction ms arbitrary: k)
    (simp_all add: map_filter_simps parseModel_fields split: option.splits)

lemma parseModels_nth:
  "i < length (parseModels api clock k ms) \<Longrightarrow>
   remainingPercentage (parseModels api clock k ms ! i)
     = (case remainingFraction (parseModels api clock k ms ! i) of
          None \<Rightarrow> None | Some f \<Rightarrow> Some (f * 100))
   \<and> isExhausted (parseModels api clock k ms ! i)
     = (remainingFraction (parseModels api clock k ms ! i) = Some 0)
   \<and> timeUntilReset (parseModels api clock k ms ! i)
     = resetTime (parseModels api clock k ms ! i) - clock (k + i)
   \<and> timeUntilResetFormatted (parseModels api clock k ms ! i)
     = formatTime api (timeUntilReset (parseModels api clock k ms ! i))
         (resetTime (parseModels api clock k ms ! i))"
proof (induction ms arbitrary: k i)
  case Nil
  then show ?case by simp
next
  case (Cons m ms)
  show ?case
  proof (cases "quotaInfo m")
    case None
    with Cons show ?thesis by simp
  next
    case (Some info)
    show ?thesis
    proof (cases i)
      case 0
      then show ?thesis by (simp add: Some parseModel_fields)
    next
      case (Suc j)
      with Cons.prems Some have "j < length (parseModels api clock (k + 1) ms)" by simp
      from Cons.IH [OF this] show ?thesis by (simp add: Some Suc)
    qed
  qed
qed

lemma parsePromptCredits_Some:
  "parsePromptCredits plan = Some credits \<Longrightarrow>
   0 < pcMonthly credits
   \<and> pcRemainingPercentage credits = pcAvailable credits / pcMonthly credits * 100
   \<and> (\<exists>status. plan = Some status
         \<and> monthlyPromptCredits status = Some (pcMonthly credits)
         \<and> availablePromptCredits status = Some (pcAvailable credits))"
  by (auto simp: parsePromptCredits_def split: option.splits if_splits)

text \<open>
  C8.  In a snapshot that \<open>parseResponse\<close> returns, the fractions and reset times of
  the models are those of the raw models that carry quota information, in order.
  Every model's percentage is its fraction times 100 when the fraction is present and
  absent otherwise; it is exhausted exactly when its fraction is 0; its time until
  reset is its reset time minus the clock reading made for it, and is formatted by
  \<open>formatTime\<close>, which prints \<open>Ready\<close> for every value that is not positive.  Prompt
  credits are produced only from a plan status whose monthly allotment is positive,
  with the remaining percentage \<open>available / monthly * 100\<close>.
\<close>

theorem parseResponse_normalization:
  assumes "parseResponse api clock data = Inr snapshot"
  shows "(\<exists>status. userStatus data = Some status
            \<and> map remainingFraction (models snapshot)
                = map quotaRemainingFraction
                    (List.map_filter quotaInfo
                       (case clientModelConfigs status of None \<Rightarrow> [] | Some ms \<Rightarrow> ms))
            \<and> map resetTime (models snapshot)
                = map (\<lambda>info. dateParse api (quotaResetTime info))
                    (List.map_filter quotaInfo
                       (case clientModelConfigs status of None \<Rightarrow> [] | Some ms \<Rightarrow> ms))
            \<and> (\<forall>credits. promptCredits snapshot = Some credits \<longrightarrow>
                  (\<exists>plan. planStatus status = Some plan
                     \<and> monthlyPromptCredits plan = Some (pcMonthly credits)
                     \<and> availablePromptCredits plan = Some (pcAvailable credits))))
         \<and> (\<forall>i < length (models snapshot).
               remainingPercentage (models snapshot ! i)
                 = (case remainingFraction (models snapshot ! i) of
                      None \<Rightarrow> None | Some f \<Rightarrow> Some (f * 100))
               \<and> isExhausted (models snapshot ! i)
                   = (remainingFraction (models snapshot ! i) = Some 0)
               \<and> timeUntilReset (models snapshot ! i)
                   = resetTime (models snapshot ! i) - clock i
               \<and> timeUntilResetFormatted (models snapshot ! i)
                   = formatTime api (timeUntilReset (models snapshot ! i))
                       (resetTime (models snapshot ! i))
               \<and> (timeUntilReset (models snapshot ! i) \<le> 0
                    \<longrightarrow> timeUntilResetFormatted (models snapshot ! i) = ''Ready''))
         \<and> (\<forall>credits. promptCredits snapshot = Some credits \<longrightarrow>
               0 < pcMonthly credits
               \<and> pcRemainingPercentage credits
                   = pcAvailable credits / pcMonthly credits * 100)
         \<and> (\<forall>ms reset. ms \<le> 0 \<longrightarrow> formatTime api ms reset = ''Ready'')"
proof -
  from assms obtain status where st: "userStatus data = Some status"
    by (auto simp: parseResponse_def split: option.splits)
  let ?raw = "case clientModelConfigs status of None \<Rightarrow> [] | Some ms \<Rightarrow> ms"
  have ms: "models snapshot = parseModels api clock 0 ?raw"
    and pc: "promptCredits snapshot = parsePromptCredits (planStatus status)"
    using assms by (auto simp: parseResponse_def st Let_def)
  have ready: "\<forall>t reset. t \<le> 0 \<longrightarrow> formatTime api t reset = ''Ready''"
    by (simp add: formatTime_def)
  have a: "\<exists>status. userStatus data = Some status
            \<and> map remainingFraction (models snapshot)
                = map quotaRemainingFraction
                    (List.map_filter quotaInfo
                       (case clientModelConfigs status of None \<Rightarrow> [] | Some ms \<Rightarrow> ms))
            \<and> map resetTime (models snapshot)
                = map (\<lambda>info. dateParse api (quotaResetTime info))
                    (List.map_filter quotaInfo
                       (case clientModelConfigs status of None \<Rightarrow> [] | Some ms \<Rightarrow> ms))
            \<and> (\<forall>credits. promptCredits snapshot = Some credits \<longrightarrow>
                  (\<exists>plan. planStatus status = Some plan
                     \<and> monthlyPromptCredits plan = Some (pcMonthly credits)
                     \<and> availablePromptCredits plan = Some (pcAvailable credits)))"
    using st parseModels_inputs [of api clock 0 ?raw] parsePromptCredits_Some
    unfolding ms pc by blast
  have b: "\<forall>i < length (models snapshot).
               remainingPercentage (models snapshot ! i)
                 = (case remainingFraction (models snapshot ! i) of
                      None \<Rightarrow> None | Some f \<Rightarrow> Some (f * 100))
               \<and> isExhausted (models snapshot ! i)
                   = (remainingFraction (models snapshot ! i) = Some 0)
               \<and> timeUntilReset (models snapshot ! i)
                   = resetTime (models snapshot ! i) - clock i
               \<and> timeUntilResetFormatted (models snapshot ! i)
                   = formatTime api (timeUntilReset (models snapshot ! i))
                       (resetTime (models snapshot ! i))
               \<and> (timeUntilReset (models snapshot ! i) \<le> 0
                    \<longrightarrow> timeUntilResetFormatted (models snapshot ! i) = ''Ready'')"
  proof (intro allI impI)
    fix i assume "i < length (models snapshot)"
    then have "i < length (parseModels api clock 0 ?raw)" by (simp add: ms)
    from parseModels_nth [OF this] ready
    show "remainingPercentage (models snapshot ! i)
                 = (case remainingFraction (models snapshot ! i) of
                      None \<Rightarrow> None | Some f \<Rightarrow> Some (f * 100))
               \<and> isExhausted (models snapshot ! i)
                   = (remainingFraction (models snapshot ! i) = Some 0)
               \<and> timeUntilReset (models snapshot ! i)
                   = resetTime (models snapshot ! i) - clock i
               \<and> timeUntilResetFormatted (models snapshot ! i)
                   = formatTime api (timeUntilReset (models snapshot ! i))
                       (resetTime (models snapshot ! i))
               \<and> (timeUntilReset (models snapshot ! i) \<le> 0
                    \<longrightarrow> timeUntilResetFormatted (models snapshot ! i) = ''Ready'')"
      by (simp add: ms)
  qed
  have c: "\<forall>credits. promptCredits snapshot = Some credits \<longrightarrow>
               0 < pcMonthly credits
               \<and> pcRemainingPercentage credits
                   = pcAvailable credits / pcMonthly credits * 100"
    using parsePromptCredits_Some unfolding pc by blast
  from a b c ready show ?thesis by blast
qed

lemma sampleResponse_parsed:
  "parseResponse sampleApi sampleClock sampleResponse = Inr sampleParsed"
  by code_simp

text \<open>
  The sample response, with clock readings 100, 101, 102 for its three models: the
  model at the fraction 1/2 stands at 50 percent, the one without fraction has no
  percentage and is not exhausted, the one at the fraction 0 is exhausted and, its
  reset time 102 ms in the past, formatted as \<open>Ready\<close>; 125 of 500 credits are 25
  percent.
\<close>

theorem parseResponse_normalization_witness:
  "parseResponse sampleApi sampleClock sampleResponse = Inr sampleParsed
   \<and> map remainingPercentage (models sampleParsed) = [Some 50, None, Some 0]
   \<and> map isExhausted (models sampleParsed) = [False, False, True]
   \<and> map timeUntilReset (models sampleParsed) = [7200000 - 100, 7200000 - 101, 0 - 102]
   \<and> timeUntilResetFormatted (models sampleParsed ! 2) = ''Ready''
   \<and> map_option pcRemainingPercentage (promptCredits sampleParsed) = Some 25"
  using parseResponse_normalization [OF sampleResponse_parsed] sampleResponse_parsed
  by (simp add: sampleParsed_def)

section \<open>Transport failures of the status request\<close>

text \<open>
  C9.  When the request fails with a network error or a timeout, or its body does not
  parse as JSON, \<open>fetchQuota\<close> resolves with \<open>null\<close>, leaves the manager as it was,
  the stored snapshot included, and calls the error callback, if one is registered,
  once with the error; the update callback is not called.
\<close>

theorem fetchQuota_transport_failure:
  "fetchQuota api clock jsonParse manager (NetworkError msg)
     = (None, manager, if errorCallback manager then [ErrorCalled msg] else [])
   \<and> fetchQuota api clock jsonParse manager RequestTimedOut
     = (None, manager, if errorCallback manager then [ErrorCalled ''Request timeout''] else [])
   \<and> (jsonParse body = None \<longrightarrow>
        fetchQuota api clock jsonParse manager (ResponseEnded body)
          = (None, manager,
             if errorCallback manager then [ErrorCalled ''Invalid JSON response''] else []))"
  by (simp add: fetchQuota_def request_def)

text \<open>
  A manager that holds a snapshot keeps it through a timeout, a refused connection and
  a body that is not JSON, and reports each to its error callback.
\<close>

theorem fetchQuota_transport_failure_witness:
  "fetchQuota sampleApi sampleClock sampleJsonParse sampleManager RequestTimedOut
     = (None, sampleManager, [ErrorCalled ''Request timeout''])
   \<and> fetchQuota sampleApi sampleClock sampleJsonParse sampleManager (NetworkError ''ECONNREFUSED'')
     = (None, sampleManager, [ErrorCalled ''ECONNREFUSED''])
   \<and> fetchQuota sampleApi sampleClock sampleJsonParse sampleManager (ResponseEnded ''<html>'')
     = (None, sampleManager, [ErrorCalled ''Invalid JSON response''])
   \<and> managerLastSnapshot sampleManager = Some (sampleSnapshot [sampleModel ''a'' (Some 50)])"
  using
    fetchQuota_transport_failure [of sampleApi sampleClock sampleJsonParse sampleManager
      "''ECONNREFUSED''" "''<html>''"]
  by (simp add: sampleManager_def sampleJsonParse_def)

section \<open>A model without percentage\<close>

lemma analyzeLoop_atRisk:
  "set (fst (analyzeLoop cfg ms (r, lo, lm)))
     = set r \<union> {m \<in> set ms. nullish (remainingPercentage m) 100 \<le> warningThreshold cfg}"
  by (induction ms arbitrary: r lo lm) (auto simp: Let_def)

lemma analyze_atRisk_absent:
  assumes "remainingPercentage model = None"
  shows "model \<in> set (modelsAtRisk (analyzeQuotaState cfg snapshot now))
         \<longleftrightarrow> model \<in> set (models snapshot) \<and> 100 \<le> warningThreshold cfg"
proof -
  obtain r lo lm where a: "analyzeLoop cfg (models snapshot) ([], 100, None) = (r, lo, lm)"
    by (cases "analyzeLoop cfg (models snapshot) ([], 100, None)") auto
  have r: "set r = {m \<in> set (models snapshot).
                     nullish (remainingPercentage m) 100 \<le> warningThreshold cfg}"
    using analyzeLoop_atRisk [of cfg "models snapshot" "[]" 100 None] a by simp
  have v: "\<And>p. model \<noteq> pcVirtualModel p now"
    using assms by (auto simp: pcVirtualModel_def)
  show ?thesis
    using assms v
    by (auto simp: analyzeQuotaState_def a r Let_def nullish_def split: option.splits)
qed

lemma attention_absent:
  assumes "remainingPercentage model = None"
  shows "model \<in> set (getModelsRequiringAttention g now)
         \<longleftrightarrow> (\<exists>snapshot. lastSnapshot g = Some snapshot \<and> model \<in> set (models snapshot))
             \<and> 100 \<le> warningThreshold (config g)"
proof -
  have v: "\<And>p. model \<noteq> pcVirtualModel p now"
    using assms by (auto simp: pcVirtualModel_def)
  show ?thesis
  proof (cases "lastSnapshot g")
    case None
    then show ?thesis by (simp add: getModelsRequiringAttention_def)
  next
    case (Some stored)
    then show ?thesis
      using assms v
      by (auto simp: getModelsRequiringAttention_def Let_def nullish_def split: option.splits)
  qed
qed

lemma foldl_worseOf_in: "foldl worseOf a ys \<in> set (a # ys)"
proof (induction ys arbitrary: a)
  case Nil
  then show ?case by simp
next
  case (Cons y ys)
  have "worseOf a y = a \<or> worseOf a y = y"
    by (simp add: worseOf_def Let_def)
  with Cons [of "worseOf a y"] show ?case by auto
qed

lemma worstModel_in: "worstModel xs = Some m \<Longrightarrow> m \<in> set xs"
  using foldl_worseOf_in by (cases xs) auto

lemma attention_without_absent:
  assumes "remainingPercentage model = None" "warningThreshold (config g) < 100"
  shows "getModelsRequiringAttention
           (g\<lparr> lastSnapshot := Some (snapshot\<lparr> models := before @ model # after \<rparr>) \<rparr>) t
       = getModelsRequiringAttention
           (g\<lparr> lastSnapshot := Some (snapshot\<lparr> models := before @ after \<rparr>) \<rparr>) t"
  using assms
  by (simp add: getModelsRequiringAttention_def nullish_def Let_def split: option.splits)

lemma checkAndWarn_lastSnapshot:
  assumes "getModelsRequiringAttention (g\<lparr> lastSnapshot := s1 \<rparr>) (nowAtCheck io)
           = getModelsRequiringAttention (g\<lparr> lastSnapshot := s2 \<rparr>) (nowAtCheck io)"
  shows "checkAndWarn (g\<lparr> lastSnapshot := s1 \<rparr>) io
       = (case checkAndWarn (g\<lparr> lastSnapshot := s2 \<rparr>) io of
            (answer, g1, events) \<Rightarrow> (answer, g1\<lparr> lastSnapshot := s1 \<rparr>, events))"
  using assms
  by (simp add: checkAndWarn_def showBlockModal_def showWarningModal_def recordAck_def
      shouldShowAlert_def Let_def split: option.splits)

lemma checkAndWarn_absent_worst:
  assumes "remainingPercentage model = None"
    and "guardActive (guardState g)"
    and "worstModel (getModelsRequiringAttention g (nowAtCheck io)) = Some model"
  shows "checkAndWarn g io
       = (if \<not> shouldShowAlert g (nowAtCheck io) (checkModel (config g) model) then (True, g, [])
          else if 100 \<le> blockThreshold (config g)
          then showBlockModal g io (checkModel (config g) model)
          else showWarningModal g io (checkModel (config g) model))"
proof -
  have "model \<in> set (getModelsRequiringAttention g (nowAtCheck io))"
    using assms(3) by (rule worstModel_in)
  then have w: "100 \<le> warningThreshold (config g)"
    using attention_absent [OF assms(1)] by blast
  have b: "shouldBlock (checkModel (config g) model) = (100 \<le> blockThreshold (config g))"
    "\<not> 100 \<le> blockThreshold (config g) \<Longrightarrow> shouldWarn (checkModel (config g) model)"
    using assms(1) w by (auto simp: checkModel_def nullish_def Let_def)
  show ?thesis
    using assms(2,3) b by (simp add: checkAndWarn_def Let_def)
qed

text \<open>
  C2, as the code has it.  The guard has no unknown percentage: it reads an absent one as
  100 everywhere except in the alert suppression and in the acknowledgment it records,
  where it reads 0.

  Read as 100.  Reset detection treats the model exactly as one that reports 100.  In
  state analysis the level and the lowest quota are those of the snapshot with 100 in
  place of the absent percentage, and the model is among the models at risk only when
  the warning threshold is at least 100.  In the decision gate the model requires
  attention only under the same condition, \<open>checkModel\<close> gives it the level of 100,
  which is never blocked, and the choice of the worst model compares it as 100.  So with
  a warning threshold below 100 \<open>checkAndWarn\<close> answers, alerts and acknowledges as it
  does for the stored snapshot without the model.

  Read as 0.  \<open>shouldShowAlert\<close> decides on a check of the model as on the same check
  with the percentage 0, and the acknowledgment recorded for it is the one recorded for
  the percentage 0: it holds the level of 100 and the percentage 0.

  Together.  When the guard is active and the model is the worst of the models that
  require attention, \<open>checkAndWarn\<close> allows the action without alert if
  \<open>shouldShowAlert\<close> suppresses the check, shows the block modal if the block threshold
  is at least 100, and the warning modal otherwise.
\<close>

theorem absent_percentage_read_as_100:
  assumes "remainingPercentage model = None"
  shows "resetStep g model = resetStep g (model\<lparr> remainingPercentage := Some 100 \<rparr>)
    \<and> level (analyzeQuotaState cfg (snapshot\<lparr> models := before @ model # after \<rparr>) now)
        = level (analyzeQuotaState cfg
            (snapshot\<lparr> models := before @ model\<lparr> remainingPercentage := Some 100 \<rparr> # after \<rparr>) now)
    \<and> lowestQuota (analyzeQuotaState cfg (snapshot\<lparr> models := before @ model # after \<rparr>) now)
        = lowestQuota (analyzeQuotaState cfg
            (snapshot\<lparr> models := before @ model\<lparr> remainingPercentage := Some 100 \<rparr> # after \<rparr>) now)
    \<and> (model \<in> set (modelsAtRisk (analyzeQuotaState cfg snapshot now))
         \<longleftrightarrow> model \<in> set (models snapshot) \<and> 100 \<le> warningThreshold cfg)
    \<and> (model \<in> set (getModelsRequiringAttention g now)
         \<longleftrightarrow> (\<exists>stored. lastSnapshot g = Some stored \<and> model \<in> set (models stored))
             \<and> 100 \<le> warningThreshold (config g))
    \<and> checkLevel (checkModel cfg model) = levelOf cfg 100
    \<and> checkLevel (checkModel cfg model) \<noteq> Blocked
    \<and> shouldBlock (checkModel cfg model) = (100 \<le> blockThreshold cfg)
    \<and> shouldWarn (checkModel cfg model)
        = (blockThreshold cfg < 100 \<and> 100 \<le> warningThreshold cfg)
    \<and> worseOf other model
        = (if 100 < nullish (remainingPercentage other) 100 then model else other)
    \<and> worseOf model other
        = (if nullish (remainingPercentage other) 100 < 100 then other else model)
    \<and> (warningThreshold (config g) < 100 \<longrightarrow>
         checkAndWarn (g\<lparr> lastSnapshot := Some (snapshot\<lparr> models := before @ model # after \<rparr>) \<rparr>) io
           = (case checkAndWarn
                     (g\<lparr> lastSnapshot := Some (snapshot\<lparr> models := before @ after \<rparr>) \<rparr>) io of
                (answer, g1, events) \<Rightarrow>
                  (answer,
                   g1\<lparr> lastSnapshot := Some (snapshot\<lparr> models := before @ model # after \<rparr>) \<rparr>,
                   events)))
    \<and> shouldShowAlert g now (check\<lparr> checkedModel := model \<rparr>)
        = shouldShowAlert g now (check\<lparr> checkedModel := model\<lparr> remainingPercentage := Some 0 \<rparr> \<rparr>)
    \<and> recordAck g (check\<lparr> checkedModel := model \<rparr>) now
        = recordAck g (check\<lparr> checkedModel := model\<lparr> remainingPercentage := Some 0 \<rparr> \<rparr>) now
    \<and> acknowledgments (recordAck g (checkModel cfg model) now) (modelId model)
        = Some \<lparr> ackLevel = levelOf cfg 100, ackTimestamp = now, ackPercentage = 0 \<rparr>
    \<and> (guardActive (guardState g)
        \<and> worstModel (getModelsRequiringAttention g (nowAtCheck io)) = Some model \<longrightarrow>
         checkAndWarn g io
           = (if \<not> shouldShowAlert g (nowAtCheck io) (checkModel (config g) model)
              then (True, g, [])
              else if 100 \<le> blockThreshold (config g)
              then showBlockModal g io (checkModel (config g) model)
              else showWarningModal g io (checkModel (config g) model)))"
proof -
  have 1: "resetStep g model = resetStep g (model\<lparr> remainingPercentage := Some 100 \<rparr>)"
    using assms by (simp add: resetStep_def nullish_def)
  have p: "percentagesOf (snapshot\<lparr> models := before @ model # after \<rparr>)
      = percentagesOf
          (snapshot\<lparr> models := before @ model\<lparr> remainingPercentage := Some 100 \<rparr> # after \<rparr>)"
    using assms by (simp add: percentagesOf_def nullish_def)
  have 3: "lowestQuota (analyzeQuotaState cfg (snapshot\<lparr> models := before @ model # after \<rparr>) now)
        = lowestQuota (analyzeQuotaState cfg
            (snapshot\<lparr> models := before @ model\<lparr> remainingPercentage := Some 100 \<rparr> # after \<rparr>) now)"
    by (simp only: analyze_lowest p)
  have 2: "level (analyzeQuotaState cfg (snapshot\<lparr> models := before @ model # after \<rparr>) now)
        = level (analyzeQuotaState cfg
            (snapshot\<lparr> models := before @ model\<lparr> remainingPercentage := Some 100 \<rparr> # after \<rparr>) now)"
    by (simp only: analyze_level 3)
  have 6: "checkLevel (checkModel cfg model) = levelOf cfg 100"
    using assms by (simp add: checkModel_level nullish_def)
  have 7: "checkLevel (checkModel cfg model) \<noteq> Blocked"
    by (simp add: 6 levelOf_def)
  have 8: "shouldBlock (checkModel cfg model) = (100 \<le> blockThreshold cfg)"
    "shouldWarn (checkModel cfg model) = (blockThreshold cfg < 100 \<and> 100 \<le> warningThreshold cfg)"
    using assms by (auto simp: checkModel_def nullish_def Let_def)
  have 9: "worseOf other model
        = (if 100 < nullish (remainingPercentage other) 100 then model else other)"
    "worseOf model other
        = (if nullish (remainingPercentage other) 100 < 100 then other else model)"
    using assms by (simp_all add: worseOf_def nullish_def Let_def)
  have 10: "warningThreshold (config g) < 100 \<longrightarrow>
         checkAndWarn (g\<lparr> lastSnapshot := Some (snapshot\<lparr> models := before @ model # after \<rparr>) \<rparr>) io
           = (case checkAndWarn
                     (g\<lparr> lastSnapshot := Some (snapshot\<lparr> models := before @ after \<rparr>) \<rparr>) io of
                (answer, g1, events) \<Rightarrow>
                  (answer,
                   g1\<lparr> lastSnapshot := Some (snapshot\<lparr> models := before @ model # after \<rparr>) \<rparr>,
                   events))"
    using checkAndWarn_lastSnapshot [OF attention_without_absent [OF assms]] by blast
  have 11: "shouldShowAlert g now (check\<lparr> checkedModel := model \<rparr>)
        = shouldShowAlert g now (check\<lparr> checkedModel := model\<lparr> remainingPercentage := Some 0 \<rparr> \<rparr>)"
    using assms by (simp add: shouldShowAlert_def nullish_def Let_def split: option.splits)
  have 12: "recordAck g (check\<lparr> checkedModel := model \<rparr>) now
        = recordAck g (check\<lparr> checkedModel := model\<lparr> remainingPercentage := Some 0 \<rparr> \<rparr>) now"
    using assms by (simp add: recordAck_def nullish_def)
  have m: "checkedModel (checkModel cfg model) = model"
    by (simp add: checkModel_def Let_def)
  have 13: "acknowledgments (recordAck g (checkModel cfg model) now) (modelId model)
        = Some \<lparr> ackLevel = levelOf cfg 100, ackTimestamp = now, ackPercentage = 0 \<rparr>"
    using assms by (simp add: recordAck_def m 6 nullish_def)
  have 14: "guardActive (guardState g)
        \<and> worstModel (getModelsRequiringAttention g (nowAtCheck io)) = Some model \<longrightarrow>
         checkAndWarn g io
           = (if \<not> shouldShowAlert g (nowAtCheck io) (checkModel (config g) model)
              then (True, g, [])
              else if 100 \<le> blockThreshold (config g)
              then showBlockModal g io (checkModel (config g) model)
              else showWarningModal g io (checkModel (config g) model))"
    using checkAndWarn_absent_worst [OF assms] by blast
  show ?thesis
    by (intro conjI)
      (rule 1 2 3 analyze_atRisk_absent [OF assms] attention_absent [OF assms] 6 7 8 9 10 11
         12 13 14)+
qed

text \<open>
  With the default thresholds 2 and 20, the model \<open>a\<close> without percentage is not at
  risk, does not require attention and is at normal level, and the decision gate treats
  the snapshot of \<open>a\<close> and \<open>b\<close> as the snapshot of \<open>b\<close> alone.  With the warning
  threshold 100 and a warning acknowledgment at 50, the gate shows the warning for \<open>a\<close>
  without percentage, because 50 - 0 exceeds 5, and records the percentage 0; for \<open>a\<close>
  at 100 it shows nothing.
\<close>

theorem absent_percentage_read_as_100_witness:
  "remainingPercentage (sampleModel ''a'' None) = None
   \<and> sampleModel ''a'' None
        \<notin> set (modelsAtRisk (analyzeQuotaState defaultConfig
                  (sampleSnapshot [sampleModel ''a'' None]) 0))
   \<and> sampleModel ''a'' None
        \<notin> set (getModelsRequiringAttention
                  (updateSnapshot (newQuotaGuard defaultConfig)
                     (sampleSnapshot [sampleModel ''a'' None]) 0) 0)
   \<and> checkLevel (checkModel defaultConfig (sampleModel ''a'' None)) = Normal
   \<and> resetStep seenGuard (sampleModel ''a'' None)
       = resetStep seenGuard ((sampleModel ''a'' None)\<lparr> remainingPercentage := Some 100 \<rparr>)
   \<and> checkAndWarn
        ((newQuotaGuard defaultConfig)
           \<lparr> lastSnapshot :=
               Some (sampleSnapshot [sampleModel ''a'' None, sampleModel ''b'' (Some 10)]) \<rparr>)
        dismissal
       = (case checkAndWarn
                 ((newQuotaGuard defaultConfig)
                    \<lparr> lastSnapshot := Some (sampleSnapshot [sampleModel ''b'' (Some 10)]) \<rparr>)
                 dismissal of
            (answer, g1, events) \<Rightarrow>
              (answer,
               g1\<lparr> lastSnapshot :=
                     Some (sampleSnapshot [sampleModel ''a'' None, sampleModel ''b'' (Some 10)]) \<rparr>,
               events))
   \<and> fst (checkAndWarn (cautiousGuard None) dismissal)
   \<and> snd (snd (checkAndWarn (cautiousGuard None) dismissal))
       = [PlayAlertSound ''warning'',
          ShowWarningMessage (message (checkModel cautiousConfig (sampleModel ''a'' None)))]
   \<and> acknowledgments (fst (snd (checkAndWarn (cautiousGuard None) dismissal))) ''a''
       = Some \<lparr> ackLevel = Warning, ackTimestamp = 0, ackPercentage = 0 \<rparr>
   \<and> checkAndWarn (cautiousGuard (Some 100)) dismissal = (True, cautiousGuard (Some 100), [])"
proof -
  have n: "remainingPercentage (sampleModel ''a'' None) = None"
    by (simp add: sampleModel_def)
  have a: "sampleModel ''a'' None
        \<notin> set (modelsAtRisk (analyzeQuotaState defaultConfig
                  (sampleSnapshot [sampleModel ''a'' None]) 0))
   \<and> sampleModel ''a'' None
        \<notin> set (getModelsRequiringAttention
                  (updateSnapshot (newQuotaGuard defaultConfig)
                     (sampleSnapshot [sampleModel ''a'' None]) 0) 0)
   \<and> checkLevel (checkModel defaultConfig (sampleModel ''a'' None)) = Normal
   \<and> resetStep seenGuard (sampleModel ''a'' None)
       = resetStep seenGuard ((sampleModel ''a'' None)\<lparr> remainingPercentage := Some 100 \<rparr>)"
    using n
      absent_percentage_read_as_100 [OF n, where g = seenGuard and cfg = defaultConfig
        and snapshot = "sampleSnapshot [sampleModel ''a'' None]" and now = 0]
      absent_percentage_read_as_100 [OF n,
        where g = "updateSnapshot (newQuotaGuard defaultConfig)
                     (sampleSnapshot [sampleModel ''a'' None]) 0"
        and cfg = defaultConfig and now = 0]
    by (simp add: defaultConfig_def levelOf_def updateSnapshot_def Let_def
        foldl_resetStep_config resetPromptCredits_config newQuotaGuard_def)
  have b: "checkAndWarn
        ((newQuotaGuard defaultConfig)
           \<lparr> lastSnapshot :=
               Some (sampleSnapshot [sampleModel ''a'' None, sampleModel ''b'' (Some 10)]) \<rparr>)
        dismissal
       = (case checkAndWarn
                 ((newQuotaGuard defaultConfig)
                    \<lparr> lastSnapshot := Some (sampleSnapshot [sampleModel ''b'' (Some 10)]) \<rparr>)
                 dismissal of
            (answer, g1, events) \<Rightarrow>
              (answer,
               g1\<lparr> lastSnapshot :=
                     Some (sampleSnapshot [sampleModel ''a'' None, sampleModel ''b'' (Some 10)]) \<rparr>,
               events))"
    using
      absent_percentage_read_as_100 [OF n, where g = "newQuotaGuard defaultConfig"
        and snapshot = "sampleSnapshot []" and before = "[]"
        and after = "[sampleModel ''b'' (Some 10)]" and io = dismissal]
    by (simp add: newQuotaGuard_def defaultConfig_def sampleSnapshot_def)
  have w: "guardActive (guardState (cautiousGuard None))
     \<and> worstModel (getModelsRequiringAttention (cautiousGuard None) (nowAtCheck dismissal))
         = Some (sampleModel ''a'' None)"
    by (simp add: cautiousGuard_def cautiousConfig_def defaultConfig_def newQuotaGuard_def
        updateSnapshot_def resetStep_def resetPromptCredits_def resetDetected_def
        analyzeQuotaState_def levelOf_def sampleSnapshot_def sampleModel_def nullish_def
        getModelsRequiringAttention_def Let_def)
  have c: "fst (checkAndWarn (cautiousGuard None) dismissal)
   \<and> snd (snd (checkAndWarn (cautiousGuard None) dismissal))
       = [PlayAlertSound ''warning'',
          ShowWarningMessage (message (checkModel cautiousConfig (sampleModel ''a'' None)))]
   \<and> acknowledgments (fst (snd (checkAndWarn (cautiousGuard None) dismissal))) ''a''
       = Some \<lparr> ackLevel = Warning, ackTimestamp = 0, ackPercentage = 0 \<rparr>"
    using w
      absent_percentage_read_as_100 [OF n, where g = "cautiousGuard None" and io = dismissal]
    by (simp add: cautiousGuard_def cautiousConfig_def defaultConfig_def newQuotaGuard_def
        updateSnapshot_def resetStep_def resetPromptCredits_def resetDetected_def
        analyzeQuotaState_def levelOf_def sampleSnapshot_def sampleModel_def nullish_def
        checkModel_def shouldShowAlert_def showWarningModal_def recordAck_def dismissal_def
        Let_def)
  have d: "checkAndWarn (cautiousGuard (Some 100)) dismissal
           = (True, cautiousGuard (Some 100), [])"
    by (simp add: cautiousGuard_def cautiousConfig_def defaultConfig_def newQuotaGuard_def
        updateSnapshot_def resetStep_def resetPromptCredits_def resetDetected_def
        analyzeQuotaState_def levelOf_def sampleSnapshot_def sampleModel_def nullish_def
        getModelsRequiringAttention_def checkAndWarn_def checkModel_def shouldShowAlert_def
        dismissal_def Let_def)
  from n a b c d show ?thesis by blast
qed

text \<open>
  C2 as stated says that an absent percentage never makes the model count as healthy.
  With the default thresholds, a snapshot whose only model has no percentage has no
  model at risk, the lowest quota 100 and the level normal; the decision gate allows
  the action and shows nothing; and for a guard that last saw the model at 10 and holds
  its acknowledgment, the update records 100 and clears the acknowledgment as after a
  reset.
\<close>

theorem absent_percentage_counterexample:
  "remainingPercentage (sampleModel ''a'' None) = None
   \<and> modelsAtRisk (analyzeQuotaState defaultConfig (sampleSnapshot [sampleModel ''a'' None]) 0)
       = []
   \<and> lowestQuota (analyzeQuotaState defaultConfig (sampleSnapshot [sampleModel ''a'' None]) 0)
       = 100
   \<and> level (analyzeQuotaState defaultConfig (sampleSnapshot [sampleModel ''a'' None]) 0)
       = Normal
   \<and> fst (checkAndWarn (updateSnapshot (newQuotaGuard defaultConfig)
             (sampleSnapshot [sampleModel ''a'' None]) 0) dismissal)
   \<and> snd (snd (checkAndWarn (updateSnapshot (newQuotaGuard defaultConfig)
             (sampleSnapshot [sampleModel ''a'' None]) 0) dismissal)) = []
   \<and> acknowledgments seenGuard ''a''
       = Some \<lparr> ackLevel = Warning, ackTimestamp = 0, ackPercentage = 10 \<rparr>
   \<and> lastSeenPercentages (updateSnapshot seenGuard (sampleSnapshot [sampleModel ''a'' None]) 0)
        ''a'' = Some 100
   \<and> acknowledgments (updateSnapshot seenGuard (sampleSnapshot [sampleModel ''a'' None]) 0)
        ''a'' = None"
  by (simp add: sampleModel_def sampleSnapshot_def defaultConfig_def analyzeQuotaState_def
      levelOf_def nullish_def checkAndWarn_def updateSnapshot_def getModelsRequiringAttention_def
      newQuotaGuard_def resetStep_def resetPromptCredits_def resetDetected_def seenGuard_def
      dismissal_def Let_def)

section \<open>The token on Windows and on Unix\<close>

text \<open>
  C7 at a command line with a UUID before the \<open>api_server_url\<close> flag and another as
  the path segment after it.  \<open>WindowsStrategy\<close> returns the path segment, which its
  second pattern finds.  \<open>UnixStrategy\<close> has no pattern for \<open>api_server_url\<close> and
  returns the first UUID of the command line.
\<close>

theorem unix_token_skips_api_server_url:
  "windowsParseProcessInfo twoUuidWmicOutput
     = Some \<lparr> pid = Some 7, extensionPort = Some 9,
              csrfToken = ''aaaaaaaa-bbbb-cccc-dddd-eeeeeeeeeeee'' \<rparr>
   \<and> unixParseProcessInfo twoUuidPsOutput
     = Some \<lparr> pid = Some 7, extensionPort = Some 9,
              csrfToken = ''11111111-2222-3333-4444-555555555555'' \<rparr>
   \<and> matchCsrfToken twoUuidCommandLine = None
   \<and> matchApiServerUrl twoUuidCommandLine = Some ''aaaaaaaa-bbbb-cccc-dddd-eeeeeeeeeeee''
   \<and> matchUuid twoUuidCommandLine = Some ''11111111-2222-3333-4444-555555555555''"
  by code_simp

end
